theory Spec2Isabelle
  imports Complex_Main "HOL-Library.Log_Nat"
begin

section \<open>The Bazimn marketplace server\<close>

text \<open>
  A shallow embedding of the HTTP server of the Bazimn marketplace (the server script with
  the functions \<open>generateToken\<close> and \<open>handleRequest\<close> and the start-up code that
  provisions the administrator). The four collections \<open>users\<close>, \<open>gigs\<close>,
  \<open>orders\<close>, \<open>disputes\<close> and the token store are the state.

  \<open>handleRequest\<close> is an \<open>async\<close> function with one \<open>await\<close>, the parse of the
  body. What it does before the \<open>await\<close> (\<open>before_await\<close>) and what it does after
  (\<open>after_await\<close>) are two synchronous blocks, and the blocks of other requests may
  run between them; a local variable set before the \<open>await\<close> keeps its value.
  \<open>handleRequest\<close> below is the handling of a request that nothing interrupts,
  \<open>istep\<close> and \<open>irun\<close> are the server with its requests in flight.

  Conventions of the embedding.
  \<^item> Strings are \<open>string\<close>, with the characters of ASCII. A field of the JSON body that
    the handler only tests with \<open>!field\<close>, compares with \<open>===\<close> or stores is a
    string, the empty string standing for every falsy value (absent, \<open>null\<close>, \<open>0\<close>,
    \<open>false\<close>, \<open>""\<close>). \<open>resolution\<close> is never tested and may be absent, and
    \<open>releaseToSeller\<close> is only tested for truth.
  \<^item> The \<open>price\<close> of a gig goes through \<open>parseFloat\<close>, so it keeps its JSON type
    (\<open>jsval\<close>: absent or \<open>null\<close>, a boolean, a number, a string).
  \<^item> A number is an IEEE double: \<open>NaN\<close>, an infinity, or a finite double given by its
    rational value (\<open>jsnum\<close>). The two zeros are one value: they compare equal and
    \<open>JSON.stringify\<close> prints both as \<open>0\<close>. Every result of \<open>+\<close> and of a
    conversion from decimal digits is rounded to the nearest double, ties to even.
  \<^item> \<open>Date.now()\<close> and the digits drawn from \<open>Math.random()\<close> are inputs of a request.
  \<^item> The model covers one run of the process, started on the persisted collections, and
    the collections in memory: \<open>writeJSON\<close> copies them to the files and has no other
    effect. The \<open>OPTIONS\<close> answer and the static files touch no state and are left out.
\<close>

subsection \<open>Numbers\<close>

datatype jsnum = Num rat | NaN | Inf bool

text \<open>The power of two with an integer exponent.\<close>

definition pow2 :: "int \<Rightarrow> rat" where
  "pow2 e = (if 0 \<le> e then 2 ^ nat e else 1 / 2 ^ nat (- e))"

text \<open>For a positive \<open>a\<close>, the exponent \<open>k\<close> with \<open>2\<^sup>k \<le> a < 2\<^sup>k\<^sup>+\<^sup>1\<close>.\<close>

definition ilog2 :: "rat \<Rightarrow> int" where
  "ilog2 a = (if 1 \<le> a then bitlen \<lfloor>a\<rfloor> - 1 else - bitlen (\<lceil>1 / a\<rceil> - 1))"

text \<open>The nearest integer, the even one of two that are equally near.\<close>

definition round_half_even :: "rat \<Rightarrow> int" where
  "round_half_even x =
     (let f = \<lfloor>x\<rfloor>; d = x - of_int f
      in if d < 1 / 2 then f else if 1 / 2 < d then f + 1 else if even f then f else f + 1)"

text \<open>
  The double nearest to a rational: 53 bits of mantissa, the least unit never below
  \<open>2\<^sup>-\<^sup>1\<^sup>0\<^sup>7\<^sup>4\<close> (so that small values become subnormal or 0), and an infinity from
  \<open>2\<^sup>1\<^sup>0\<^sup>2\<^sup>4\<close> on.
\<close>

definition round_double :: "rat \<Rightarrow> jsnum" where
  "round_double r =
     (if r = 0 then Num 0
      else
        let a = \<bar>r\<bar>;
            e = max (ilog2 a - 52) (- 1074);
            v = of_int (round_half_even (a / pow2 e)) * pow2 e
        in if pow2 1024 \<le> v then Inf (0 < r) else Num (if r < 0 then - v else v))"

text \<open>The \<open>+\<close> of two numbers, as in \<open>seller.wallet += order.escrow\<close>.\<close>

fun jsadd :: "jsnum \<Rightarrow> jsnum \<Rightarrow> jsnum" where
  "jsadd (Num a) (Num b) = round_double (a + b)"
| "jsadd NaN _ = NaN"
| "jsadd _ NaN = NaN"
| "jsadd (Inf s) (Num _) = Inf s"
| "jsadd (Num _) (Inf s) = Inf s"
| "jsadd (Inf s) (Inf t) = (if s = t then Inf s else NaN)"

fun nonneg :: "jsnum \<Rightarrow> bool" where
  "nonneg (Num a) = (0 \<le> a)"
| "nonneg NaN = False"
| "nonneg (Inf s) = s"

text \<open>\<open>a <= b\<close> on numbers: false as soon as one side is \<open>NaN\<close>.\<close>

fun jsle :: "jsnum \<Rightarrow> jsnum \<Rightarrow> bool" where
  "jsle (Num a) (Num b) = (a \<le> b)"
| "jsle NaN _ = False"
| "jsle _ NaN = False"
| "jsle (Inf s) (Num _) = (\<not> s)"
| "jsle (Num _) (Inf s) = s"
| "jsle (Inf s) (Inf t) = (s \<longrightarrow> t)"

text \<open>
  A value of the JSON body. \<open>JNum r\<close> is a number written with the decimal value
  \<open>r\<close>; \<open>JSON.parse\<close> makes it the double \<open>round_double r\<close>.
\<close>

datatype jsval = JUndefined | JBool bool | JNum rat | JStr string

text \<open>\<open>!price\<close> is \<open>\<not> truthy price\<close>.\<close>

fun truthy :: "jsval \<Rightarrow> bool" where
  "truthy JUndefined = False"
| "truthy (JBool b) = b"
| "truthy (JNum r) = (round_double r \<noteq> Num 0)"
| "truthy (JStr s) = (s \<noteq> [])"

definition is_digit :: "char \<Rightarrow> bool" where
  "is_digit c = (c \<in> set ''0123456789'')"

definition is_space :: "char \<Rightarrow> bool" where
  "is_space c = (c \<in> set [CHR '' '', CHR 0x09, CHR 0x0A, CHR 0x0B, CHR 0x0C, CHR 0x0D])"

definition digit_val :: "char \<Rightarrow> nat" where
  "digit_val c = of_char c - 48"

definition digits_val :: "string \<Rightarrow> nat" where
  "digits_val ds = foldl (\<lambda>a c. 10 * a + digit_val c) 0 ds"

text \<open>The optional sign of a literal: \<open>True\<close> for a minus, and the rest of the input.\<close>

fun take_sign :: "string \<Rightarrow> bool \<times> string" where
  "take_sign [] = (False, [])"
| "take_sign (c # cs) =
     (if c = CHR ''-'' then (True, cs) else if c = CHR ''+'' then (False, cs) else (False, c # cs))"

text \<open>The factor of an \<open>ExponentPart\<close> at the head of the input, 1 when there is none.\<close>

definition exponent_part :: "string \<Rightarrow> rat" where
  "exponent_part r =
     (case r of
        [] \<Rightarrow> 1
      | c # cs \<Rightarrow>
          if c = CHR ''e'' \<or> c = CHR ''E'' then
            (let (neg, ds) = take_sign cs; ed = takeWhile is_digit ds
             in if ed = [] then 1
                else if neg then 1 / 10 ^ digits_val ed else 10 ^ digits_val ed)
          else 1)"

text \<open>
  \<open>parseFloat\<close> of a string: leading white space is skipped and the longest prefix that
  is a \<open>StrDecimalLiteral\<close> is read; without one the result is \<open>NaN\<close>. The result
  is the double nearest to the decimal value of the literal, an infinity when that value
  is too large and 0 when it is too small.
\<close>

definition parseFloat_string :: "string \<Rightarrow> jsnum" where
  "parseFloat_string s =
     (let (neg, r) = take_sign (dropWhile is_space s)
      in if take 8 r = ''Infinity'' then Inf (\<not> neg)
         else
           let ip = takeWhile is_digit r;
               r1 = dropWhile is_digit r;
               fp = (case r1 of [] \<Rightarrow> [] | c # cs \<Rightarrow> if c = CHR ''.'' then takeWhile is_digit cs else []);
               r2 = (case r1 of [] \<Rightarrow> [] | c # cs \<Rightarrow> if c = CHR ''.'' then dropWhile is_digit cs else r1)
           in if ip = [] \<and> fp = [] then NaN
              else
                let m = of_nat (digits_val (ip @ fp)) / 10 ^ length fp * exponent_part r2
                in round_double (if neg then - m else m))"

text \<open>
  \<open>parseFloat\<close> converts its argument to a string first: a number reads back as itself,
  \<open>true\<close>, \<open>false\<close> and \<open>undefined\<close> have no numeric prefix.
\<close>

fun parseFloat :: "jsval \<Rightarrow> jsnum" where
  "parseFloat (JNum r) = round_double r"
| "parseFloat (JStr s) = parseFloat_string s"
| "parseFloat (JBool _) = NaN"
| "parseFloat JUndefined = NaN"

subsection \<open>Number to string\<close>

definition digit_char :: "nat \<Rightarrow> char" where
  "digit_char d = (if d < 10 then char_of (48 + d) else char_of (87 + d))"

text \<open>\<open>n.toString(radix)\<close> for a non-negative integer \<open>n\<close> and a radix from 2 to 36.\<close>

fun toString_radix :: "nat \<Rightarrow> nat \<Rightarrow> string" where
  "toString_radix b n =
     (if b < 2 \<or> n < b then [digit_char n]
      else toString_radix b (n div b) @ [digit_char (n mod b)])"

declare toString_radix.simps [simp del]

definition toString :: "nat \<Rightarrow> string" where
  "toString n = toString_radix 10 n"

text \<open>
  \<open>generateToken\<close>: \<open>Date.now().toString(36)\<close> followed by \<open>substring(2, 8)\<close> of
  \<open>Math.random().toString(36)\<close>. The second argument is that string from its position 2
  on, the digits after \<open>0.\<close> of the random number.
\<close>

definition generateToken :: "nat \<Rightarrow> string \<Rightarrow> string" where
  "generateToken now rnd = toString_radix 36 now @ take 6 rnd"

subsection \<open>Records of the four collections\<close>

text \<open>
  The value of the handler's variable \<open>userId\<close>: \<open>null\<close>, the identifier that the
  token store holds for the token, or a property that the store inherits (see
  \<open>resolve\<close> below). It is what a message and a dispute record as their author.
\<close>

datatype ident = Anonymous | Inherited | Known string

record user =
  u_id :: string
  u_username :: string
  u_email :: string
  u_password :: string
  u_role :: string
  u_wallet :: jsnum
  u_verificationLevel :: string
  u_createdAt :: nat

record gig =
  g_id :: string
  g_sellerId :: string
  g_title :: string
  g_description :: string
  g_price :: jsnum
  g_category :: string
  g_createdAt :: nat

record message =
  m_senderId :: ident
  m_text :: string
  m_timestamp :: nat

datatype order_status = In_progress | Completed

text \<open>\<open>o_messages\<close> is \<open>None\<close> while the order has no \<open>messages\<close> property.\<close>

record order =
  o_id :: string
  o_buyerId :: string
  o_sellerId :: string
  o_gigId :: string
  o_amount :: jsnum
  o_status :: order_status
  o_createdAt :: nat
  o_escrow :: jsnum
  o_completedAt :: "nat option"
  o_messages :: "message list option"

datatype dispute_status = Open | Resolved

record dispute =
  d_id :: string
  d_orderId :: string
  d_initiatorId :: ident
  d_reason :: string
  d_status :: dispute_status
  d_resolution :: "string option"
  d_createdAt :: nat
  d_resolvedAt :: "nat option"

text \<open>
  The state of the process. \<open>tokenStore\<close> is the object used as a dictionary, newest
  assignment first.
\<close>

record state =
  users :: "user list"
  gigs :: "gig list"
  orders :: "order list"
  disputes :: "dispute list"
  tokenStore :: "(string \<times> string) list"

subsection \<open>Array helpers\<close>

text \<open>\<open>xs.find(p)\<close> is \<^const>\<open>List.find\<close>. Mutating the object that \<open>find\<close> returned:\<close>

fun update_first :: "('a \<Rightarrow> bool) \<Rightarrow> ('a \<Rightarrow> 'a) \<Rightarrow> 'a list \<Rightarrow> 'a list" where
  "update_first p f [] = []"
| "update_first p f (x # xs) = (if p x then f x # xs else x # update_first p f xs)"

text \<open>\<open>xs.splice(xs.findIndex(p), 1)\<close> when the index is not \<open>-1\<close>.\<close>

fun remove_first :: "('a \<Rightarrow> bool) \<Rightarrow> 'a list \<Rightarrow> 'a list" where
  "remove_first p [] = []"
| "remove_first p (x # xs) = (if p x then xs else x # remove_first p xs)"

subsection \<open>Start-up\<close>

record store =
  s_users :: "user list"
  s_gigs :: "gig list"
  s_orders :: "order list"
  s_disputes :: "dispute list"

definition adminUser :: "nat \<Rightarrow> user list \<Rightarrow> user" where
  "adminUser now us =
     \<lparr>u_id = toString (length us + 1), u_username = ''admin'', u_email = ''admin@bazimn.local'',
      u_password = ''admin'', u_role = ''admin'', u_wallet = Num 0,
      u_verificationLevel = ''trusted'', u_createdAt = now\<rparr>"

text \<open>
  The module's top level: the collections are read (an absent file gives \<open>[]\<close>), the
  token store is empty, and an administrator is appended when no user has the role.
\<close>

definition startup :: "nat \<Rightarrow> store \<Rightarrow> state" where
  "startup now st =
     \<lparr>users = (if list_ex (\<lambda>u. u_role u = ''admin'') (s_users st) then s_users st
               else s_users st @ [adminUser now (s_users st)]),
      gigs = s_gigs st, orders = s_orders st, disputes = s_disputes st, tokenStore = []\<rparr>"

definition empty_store :: store where
  "empty_store = \<lparr>s_users = [], s_gigs = [], s_orders = [], s_disputes = []\<rparr>"

subsection \<open>Resolving the bearer token\<close>

text \<open>
  \<open>tokenStore[token]\<close> reads a plain object, so a token that names a property of
  \<open>Object.prototype\<close> yields that property: a truthy value that is \<open>===\<close> to no
  identifier (\<open>Inherited\<close>).
\<close>

definition prototype_properties :: "string list" where
  "prototype_properties =
     [''constructor'', ''__defineGetter__'', ''__defineSetter__'', ''hasOwnProperty'',
      ''__lookupGetter__'', ''__lookupSetter__'', ''isPrototypeOf'', ''propertyIsEnumerable'',
      ''toString'', ''valueOf'', ''__proto__'', ''toLocaleString'']"

definition resolve :: "(string \<times> string) list \<Rightarrow> string \<Rightarrow> ident" where
  "resolve ts token =
     (case map_of ts token of
        Some uid \<Rightarrow> if uid = [] then Anonymous else Known uid
      | None \<Rightarrow> if token \<in> set prototype_properties then Inherited else Anonymous)"

text \<open>\<open>x === userId\<close> for a string \<open>x\<close>.\<close>

fun is_id :: "ident \<Rightarrow> string \<Rightarrow> bool" where
  "is_id (Known uid) x = (x = uid)"
| "is_id _ x = False"

text \<open>\<open>users.find(u => u.id === userId)\<close>.\<close>

definition find_user :: "user list \<Rightarrow> ident \<Rightarrow> user option" where
  "find_user us who = List.find (\<lambda>u. is_id who (u_id u)) us"

text \<open>The lookups by identifier: \<open>orders.find(o => o.id === orderId)\<close> and its like.\<close>

definition find_order :: "order list \<Rightarrow> string \<Rightarrow> order option" where
  "find_order os orderId = List.find (\<lambda>x. o_id x = orderId) os"

definition find_gig :: "gig list \<Rightarrow> string \<Rightarrow> gig option" where
  "find_gig gs gigId = List.find (\<lambda>g. g_id g = gigId) gs"

definition find_dispute :: "dispute list \<Rightarrow> string \<Rightarrow> dispute option" where
  "find_dispute ds disputeId = List.find (\<lambda>d. d_id d = disputeId) ds"

definition has_role :: "user list \<Rightarrow> ident \<Rightarrow> string \<Rightarrow> bool" where
  "has_role us who r = (case find_user us who of None \<Rightarrow> False | Some u \<Rightarrow> u_role u = r)"

subsection \<open>Requests and responses\<close>

text \<open>
  The routes that parse a JSON body. \<open>BadBody\<close> is a request on such a route whose body
  makes \<open>parseRequestBody\<close> reject or the destructuring throw.
\<close>

datatype body_route =
  R_register | R_login | R_create_gig | R_create_order | R_complete_order | R_post_message
| R_create_dispute | R_delete_gig | R_delete_user | R_resolve_dispute

datatype collection = C_users | C_gigs | C_orders | C_disputes

datatype request =
  Register string string string string \<comment> \<open>username, email, password, role\<close>
| Login string string \<comment> \<open>email, password\<close>
| ListGigs
| CreateGig string string jsval string \<comment> \<open>title, description, price, category\<close>
| GetGig string
| ListOrders
| CreateOrder string \<comment> \<open>gigId\<close>
| CompleteOrder string \<comment> \<open>orderId\<close>
| GetMessages string \<comment> \<open>the \<open>orderId\<close> of the query string, empty when absent\<close>
| PostMessage string string \<comment> \<open>orderId, text\<close>
| CreateDispute string string \<comment> \<open>orderId, reason\<close>
| AdmList collection
| AdmDeleteGig string
| AdmDeleteUser string
| AdmResolveDispute string "string option" bool \<comment> \<open>disputeId, resolution, releaseToSeller\<close>
| AdmOther \<comment> \<open>any other path under \<open>/api/adm\<close>\<close>
| ApiOther \<comment> \<open>any other path under \<open>/api\<close>\<close>
| BadBody body_route

datatype payload =
  Error string
| Message string
| Registered string
| LoggedIn string string string \<comment> \<open>token, role, userId\<close>
| GigList "gig list"
| GigCreated gig
| GigFound gig
| OrderList "order list"
| OrderPlaced order
| OrderCompleted order
| MessageList "message list"
| DisputeCreated dispute
| DisputeResolved dispute
| UserList "user list"
| DisputeList "dispute list"
| UserDeleted user

type_synonym response = "nat \<times> payload"

definition sendJson :: "nat \<Rightarrow> payload \<Rightarrow> state \<Rightarrow> response \<times> state" where
  "sendJson statusCode data s = ((statusCode, data), s)"

subsection \<open>The routes of \<open>handleRequest\<close>: after the body has arrived\<close>

text \<open>
  Each route below is the code of its route from the \<open>await\<close> on. \<open>userId\<close>,
  \<open>seller\<close> and \<open>buyer\<close> are the local variables that the code set before.
\<close>

definition register :: "nat \<Rightarrow> string \<Rightarrow> string \<Rightarrow> string \<Rightarrow> string \<Rightarrow> state \<Rightarrow> response \<times> state" where
  "register now username email password role s =
     (if username = [] \<or> email = [] \<or> password = [] \<or> role = [] then
        sendJson 400 (Error ''Missing fields'') s
      else if List.find (\<lambda>u. u_email u = email) (users s) \<noteq> None then
        sendJson 400 (Error ''Email already exists'') s
      else
        let id = toString (length (users s) + 1);
            newUser = \<lparr>u_id = id, u_username = username, u_email = email, u_password = password,
                       u_role = role, u_wallet = Num 0, u_verificationLevel = ''basic'',
                       u_createdAt = now\<rparr>
        in sendJson 201 (Registered id) (s\<lparr>users := users s @ [newUser]\<rparr>))"

definition login :: "nat \<Rightarrow> string \<Rightarrow> string \<Rightarrow> string \<Rightarrow> state \<Rightarrow> response \<times> state" where
  "login now rnd email password s =
     (if email = [] \<or> password = [] then sendJson 400 (Error ''Missing credentials'') s
      else
        case List.find (\<lambda>u. u_email u = email \<and> u_password u = password) (users s) of
          None \<Rightarrow> sendJson 401 (Error ''Invalid email or password'') s
        | Some u \<Rightarrow>
            let token = generateToken now rnd
            in sendJson 200 (LoggedIn token (u_role u) (u_id u))
                 (s\<lparr>tokenStore := (token, u_id u) # tokenStore s\<rparr>))"

text \<open>
  \<open>seller\<close> is the user that the lookup before the \<open>await\<close> returned; the gig takes
  \<open>seller.id\<close>, whether or not that user is still in the collection.
\<close>

definition create_gig ::
  "nat \<Rightarrow> user \<Rightarrow> string \<Rightarrow> string \<Rightarrow> jsval \<Rightarrow> string \<Rightarrow> state \<Rightarrow> response \<times> state" where
  "create_gig now seller title description price category s =
     (if title = [] \<or> description = [] \<or> \<not> truthy price then
        sendJson 400 (Error ''Missing fields'') s
      else
        let newGig = \<lparr>g_id = toString (length (gigs s) + 1), g_sellerId = u_id seller,
                      g_title = title, g_description = description,
                      g_price = parseFloat price,
                      g_category = (if category = [] then ''General'' else category),
                      g_createdAt = now\<rparr>
        in sendJson 201 (GigCreated newGig) (s\<lparr>gigs := gigs s @ [newGig]\<rparr>))"

text \<open>\<open>buyer\<close> is the user that the lookup before the \<open>await\<close> returned.\<close>

definition create_order :: "nat \<Rightarrow> user \<Rightarrow> string \<Rightarrow> state \<Rightarrow> response \<times> state" where
  "create_order now buyer gigId s =
     (case find_gig (gigs s) gigId of
        None \<Rightarrow> sendJson 404 (Error ''Gig not found'') s
      | Some g \<Rightarrow>
          let newOrder = \<lparr>o_id = toString (length (orders s) + 1), o_buyerId = u_id buyer,
                          o_sellerId = g_sellerId g, o_gigId = g_id g,
                          o_amount = g_price g, o_status = In_progress,
                          o_createdAt = now, o_escrow = g_price g,
                          o_completedAt = None, o_messages = None\<rparr>
          in sendJson 201 (OrderPlaced newOrder) (s\<lparr>orders := orders s @ [newOrder]\<rparr>))"

text \<open>
  The release of the escrow: the first user whose id is the order's \<open>sellerId\<close> gets the
  escrow added to the wallet; without such a user nothing is credited.
\<close>

definition credit :: "string \<Rightarrow> jsnum \<Rightarrow> user list \<Rightarrow> user list" where
  "credit sellerId amount us =
     update_first (\<lambda>u. u_id u = sellerId) (\<lambda>u. u\<lparr>u_wallet := jsadd (u_wallet u) amount\<rparr>) us"

definition complete_order :: "nat \<Rightarrow> ident \<Rightarrow> string \<Rightarrow> state \<Rightarrow> response \<times> state" where
  "complete_order now userId orderId s =
     (case find_order (orders s) orderId of
        None \<Rightarrow> sendJson 404 (Error ''Order not found'') s
      | Some ord \<Rightarrow>
          if \<not> is_id userId (o_buyerId ord) \<and> \<not> is_id userId (o_sellerId ord) then
            sendJson 403 (Error ''Not authorized for this order'') s
          else if o_status ord = Completed then
            sendJson 400 (Error ''Order already completed'') s
          else
            let done = (\<lambda>x. x\<lparr>o_status := Completed, o_completedAt := Some now,
                               o_escrow := Num 0\<rparr>)
            in sendJson 200 (OrderCompleted (done ord))
                 (s\<lparr>orders := update_first (\<lambda>x. o_id x = orderId) done (orders s),
                    users := credit (o_sellerId ord) (o_escrow ord) (users s)\<rparr>))"

text \<open>Participants of the order, or an administrator, pass.\<close>

definition may_message :: "user list \<Rightarrow> ident \<Rightarrow> order \<Rightarrow> bool" where
  "may_message us userId ord =
     (is_id userId (o_buyerId ord) \<or> is_id userId (o_sellerId ord) \<or> has_role us userId ''admin'')"

definition messages_or_empty :: "order \<Rightarrow> message list" where
  "messages_or_empty ord = (case o_messages ord of None \<Rightarrow> [] | Some ms \<Rightarrow> ms)"

definition post_message :: "nat \<Rightarrow> ident \<Rightarrow> string \<Rightarrow> string \<Rightarrow> state \<Rightarrow> response \<times> state" where
  "post_message now userId orderId text s =
     (if orderId = [] \<or> text = [] then sendJson 400 (Error ''Missing fields'') s
      else
        case find_order (orders s) orderId of
          None \<Rightarrow> sendJson 404 (Error ''Order not found'') s
        | Some ord \<Rightarrow>
            if \<not> may_message (users s) userId ord then
              sendJson 403 (Error ''Not authorised to send message'') s
            else
              sendJson 201 (Message ''Message sent'')
                (s\<lparr>orders := update_first (\<lambda>x. o_id x = orderId)
                     (\<lambda>x. x\<lparr>o_messages := Some (messages_or_empty x @
                              [\<lparr>m_senderId = userId, m_text = text, m_timestamp = now\<rparr>])\<rparr>)
                     (orders s)\<rparr>))"

definition create_dispute :: "nat \<Rightarrow> ident \<Rightarrow> string \<Rightarrow> string \<Rightarrow> state \<Rightarrow> response \<times> state" where
  "create_dispute now userId orderId reason s =
     (if orderId = [] \<or> reason = [] then sendJson 400 (Error ''Missing fields'') s
      else
        case find_order (orders s) orderId of
          None \<Rightarrow> sendJson 404 (Error ''Order not found'') s
        | Some ord \<Rightarrow>
            if \<not> is_id userId (o_buyerId ord) \<and> \<not> is_id userId (o_sellerId ord) then
              sendJson 403 (Error ''Not authorised to dispute'') s
            else
              let newDispute = \<lparr>d_id = toString (length (disputes s) + 1), d_orderId = orderId,
                                d_initiatorId = userId, d_reason = reason, d_status = Open,
                                d_resolution = None, d_createdAt = now, d_resolvedAt = None\<rparr>
              in sendJson 201 (DisputeCreated newDispute)
                   (s\<lparr>disputes := disputes s @ [newDispute]\<rparr>))"

definition delete_gig :: "string \<Rightarrow> state \<Rightarrow> response \<times> state" where
  "delete_gig gigId s =
     (case find_gig (gigs s) gigId of
        None \<Rightarrow> sendJson 404 (Error ''Gig not found'') s
      | Some g \<Rightarrow>
          sendJson 200 (Message ''Gig deleted'')
            (s\<lparr>gigs := remove_first (\<lambda>g. g_id g = gigId) (gigs s)\<rparr>))"

definition delete_user :: "string \<Rightarrow> state \<Rightarrow> response \<times> state" where
  "delete_user uid s =
     (case find_user (users s) (Known uid) of
        None \<Rightarrow> sendJson 404 (Error ''User not found'') s
      | Some removed \<Rightarrow>
          sendJson 200 (UserDeleted removed)
            (s\<lparr>users := remove_first (\<lambda>u. u_id u = uid) (users s),
               gigs := filter (\<lambda>g. g_sellerId g \<noteq> uid) (gigs s),
               orders := filter (\<lambda>x. o_buyerId x \<noteq> uid \<and> o_sellerId x \<noteq> uid) (orders s)\<rparr>))"

definition resolve_dispute ::
  "nat \<Rightarrow> string \<Rightarrow> string option \<Rightarrow> bool \<Rightarrow> state \<Rightarrow> response \<times> state" where
  "resolve_dispute now disputeId resolution releaseToSeller s =
     (case find_dispute (disputes s) disputeId of
        None \<Rightarrow> sendJson 404 (Error ''Dispute not found'') s
      | Some dis \<Rightarrow>
          if d_status dis \<noteq> Open then sendJson 400 (Error ''Dispute already resolved'') s
          else
            let settle = (\<lambda>d. d\<lparr>d_status := Resolved, d_resolution := resolution,
                                 d_resolvedAt := Some now\<rparr>);
                s1 = s\<lparr>disputes := update_first (\<lambda>d. d_id d = disputeId) settle (disputes s)\<rparr>
            in (case find_order (orders s) (d_orderId dis) of
                  None \<Rightarrow> sendJson 200 (DisputeResolved (settle dis)) s1
                | Some ord \<Rightarrow>
                    sendJson 200 (DisputeResolved (settle dis))
                      (s1\<lparr>users := (if releaseToSeller
                                     then credit (o_sellerId ord) (o_escrow ord) (users s)
                                     else users s),
                          orders := update_first (\<lambda>x. o_id x = d_orderId dis)
                                      (\<lambda>x. x\<lparr>o_escrow := Num 0, o_status := Completed\<rparr>)
                                      (orders s)\<rparr>)))"

text \<open>
  The code after the \<open>await\<close>, by route. A body that cannot be used makes
  \<open>parseRequestBody\<close> reject or the destructuring throw, which ends in the \<open>catch\<close>
  clause with 500; so does \<open>seller.id\<close> or \<open>buyer.id\<close> of no user.
\<close>

definition after_await ::
  "nat \<Rightarrow> string \<Rightarrow> ident \<Rightarrow> user option \<Rightarrow> request \<Rightarrow> state \<Rightarrow> response \<times> state" where
  "after_await now rnd userId actor req s =
     (case req of
        Register username email password role \<Rightarrow> register now username email password role s
      | Login email password \<Rightarrow> login now rnd email password s
      | CreateGig title description price category \<Rightarrow>
          (case actor of
             None \<Rightarrow> sendJson 500 (Error ''Server error'') s
           | Some seller \<Rightarrow> create_gig now seller title description price category s)
      | CreateOrder gigId \<Rightarrow>
          (case actor of
             None \<Rightarrow> sendJson 500 (Error ''Server error'') s
           | Some buyer \<Rightarrow> create_order now buyer gigId s)
      | CompleteOrder orderId \<Rightarrow> complete_order now userId orderId s
      | PostMessage orderId text \<Rightarrow> post_message now userId orderId text s
      | CreateDispute orderId reason \<Rightarrow> create_dispute now userId orderId reason s
      | AdmDeleteGig gigId \<Rightarrow> delete_gig gigId s
      | AdmDeleteUser uid \<Rightarrow> delete_user uid s
      | AdmResolveDispute disputeId resolution releaseToSeller \<Rightarrow>
          resolve_dispute now disputeId resolution releaseToSeller s
      | _ \<Rightarrow> sendJson 500 (Error ''Server error'') s)"

subsection \<open>The routes of \<open>handleRequest\<close>: before the body is read\<close>

text \<open>The route of a request that has a body, by its method and path.\<close>

definition route_of :: "request \<Rightarrow> body_route option" where
  "route_of req =
     (case req of
        Register _ _ _ _ \<Rightarrow> Some R_register
      | Login _ _ \<Rightarrow> Some R_login
      | CreateGig _ _ _ _ \<Rightarrow> Some R_create_gig
      | CreateOrder _ \<Rightarrow> Some R_create_order
      | CompleteOrder _ \<Rightarrow> Some R_complete_order
      | PostMessage _ _ \<Rightarrow> Some R_post_message
      | CreateDispute _ _ \<Rightarrow> Some R_create_dispute
      | AdmDeleteGig _ \<Rightarrow> Some R_delete_gig
      | AdmDeleteUser _ \<Rightarrow> Some R_delete_user
      | AdmResolveDispute _ _ _ \<Rightarrow> Some R_resolve_dispute
      | BadBody r \<Rightarrow> Some r
      | _ \<Rightarrow> None)"

text \<open>
  The checks of a route up to its \<open>await\<close>: the early answer (\<open>Inl\<close>), or the user
  that the route has looked up and keeps in \<open>seller\<close> or \<open>buyer\<close> (\<open>Inr\<close>).
\<close>

definition before_await :: "body_route \<Rightarrow> ident \<Rightarrow> state \<Rightarrow> response + user option" where
  "before_await r userId s =
     (case r of
        R_register \<Rightarrow> Inr None
      | R_login \<Rightarrow> Inr None
      | R_create_gig \<Rightarrow>
          if userId = Anonymous then Inl (401, Error ''Unauthorized'')
          else
            (case find_user (users s) userId of
               None \<Rightarrow> Inl (403, Error ''Only sellers can create gigs'')
             | Some seller \<Rightarrow>
                 if u_role seller \<noteq> ''seller'' then Inl (403, Error ''Only sellers can create gigs'')
                 else Inr (Some seller))
      | R_create_order \<Rightarrow>
          if userId = Anonymous then Inl (401, Error ''Unauthorized'')
          else
            (case find_user (users s) userId of
               None \<Rightarrow> Inl (403, Error ''Only buyers can place orders'')
             | Some buyer \<Rightarrow>
                 if u_role buyer \<noteq> ''buyer'' then Inl (403, Error ''Only buyers can place orders'')
                 else Inr (Some buyer))
      | R_complete_order \<Rightarrow> if userId = Anonymous then Inl (401, Error ''Unauthorized'') else Inr None
      | R_post_message \<Rightarrow> if userId = Anonymous then Inl (401, Error ''Unauthorized'') else Inr None
      | R_create_dispute \<Rightarrow> if userId = Anonymous then Inl (401, Error ''Unauthorized'') else Inr None
      | R_delete_gig \<Rightarrow>
          if \<not> has_role (users s) userId ''admin'' then Inl (403, Error ''Admin only'') else Inr None
      | R_delete_user \<Rightarrow>
          if \<not> has_role (users s) userId ''admin'' then Inl (403, Error ''Admin only'') else Inr None
      | R_resolve_dispute \<Rightarrow>
          if \<not> has_role (users s) userId ''admin'' then Inl (403, Error ''Admin only'') else Inr None)"

subsection \<open>The routes of \<open>handleRequest\<close> without a body\<close>

definition get_gig :: "string \<Rightarrow> state \<Rightarrow> response \<times> state" where
  "get_gig gigId s =
     (case find_gig (gigs s) gigId of
        None \<Rightarrow> sendJson 404 (Error ''Gig not found'') s
      | Some g \<Rightarrow> sendJson 200 (GigFound g) s)"

definition list_orders :: "ident \<Rightarrow> state \<Rightarrow> response \<times> state" where
  "list_orders userId s =
     (if userId = Anonymous then sendJson 401 (Error ''Unauthorized'') s
      else sendJson 200
             (OrderList (filter (\<lambda>x. is_id userId (o_buyerId x) \<or> is_id userId (o_sellerId x))
                (orders s))) s)"

definition get_messages :: "ident \<Rightarrow> string \<Rightarrow> state \<Rightarrow> response \<times> state" where
  "get_messages userId orderId s =
     (if orderId = [] then sendJson 400 (Error ''orderId required'') s
      else
        case find_order (orders s) orderId of
          None \<Rightarrow> sendJson 404 (Error ''Order not found'') s
        | Some ord \<Rightarrow>
            if \<not> may_message (users s) userId ord then
              sendJson 403 (Error ''Not authorised to view messages'') s
            else
              sendJson 200 (MessageList (messages_or_empty ord))
                (s\<lparr>orders := update_first (\<lambda>x. o_id x = orderId)
                     (\<lambda>x. x\<lparr>o_messages := Some (messages_or_empty x)\<rparr>) (orders s)\<rparr>))"

definition adm_list :: "collection \<Rightarrow> state \<Rightarrow> response \<times> state" where
  "adm_list c s =
     (case c of
        C_users \<Rightarrow> sendJson 200 (UserList (users s)) s
      | C_gigs \<Rightarrow> sendJson 200 (GigList (gigs s)) s
      | C_orders \<Rightarrow> sendJson 200 (OrderList (orders s)) s
      | C_disputes \<Rightarrow> sendJson 200 (DisputeList (disputes s)) s)"

text \<open>A request without a body is answered in one block.\<close>

definition immediate :: "ident \<Rightarrow> request \<Rightarrow> state \<Rightarrow> response \<times> state" where
  "immediate userId req s =
     (case req of
        ListGigs \<Rightarrow> sendJson 200 (GigList (gigs s)) s
      | GetGig gigId \<Rightarrow> get_gig gigId s
      | ListOrders \<Rightarrow> list_orders userId s
      | GetMessages orderId \<Rightarrow> get_messages userId orderId s
      | AdmList c \<Rightarrow>
          if \<not> has_role (users s) userId ''admin'' then sendJson 403 (Error ''Admin only'') s
          else adm_list c s
      | AdmOther \<Rightarrow>
          if \<not> has_role (users s) userId ''admin'' then sendJson 403 (Error ''Admin only'') s
          else sendJson 404 (Error ''Admin endpoint not found'') s
      | _ \<Rightarrow> sendJson 404 (Error ''Not found'') s)"

subsection \<open>A request that nothing interrupts\<close>

text \<open>
  \<open>handleRequest\<close> on a path under \<open>/api\<close>, when no other request is handled while
  this one waits for its body: the time, the random digits, the bearer token of the
  \<open>Authorization\<close> header (empty without one) and the request.
\<close>

definition handleRequest ::
  "nat \<Rightarrow> string \<Rightarrow> string \<Rightarrow> request \<Rightarrow> state \<Rightarrow> response \<times> state" where
  "handleRequest now rnd token req s =
     (let userId = resolve (tokenStore s) token
      in case route_of req of
           None \<Rightarrow> immediate userId req s
         | Some r \<Rightarrow>
             (case before_await r userId s of
                Inl response \<Rightarrow> (response, s)
              | Inr actor \<Rightarrow> after_await now rnd userId actor req s))"

subsection \<open>Runs of the server\<close>

text \<open>One request: the time, the random digits, the bearer token and the request itself.\<close>

type_synonym event = "nat \<times> string \<times> string \<times> request"

fun step :: "state \<Rightarrow> event \<Rightarrow> state" where
  "step s (now, rnd, token, req) = snd (handleRequest now rnd token req s)"

text \<open>The state after a sequence of requests.\<close>

definition run :: "state \<Rightarrow> event list \<Rightarrow> state" where
  "run s es = foldl step s es"

text \<open>The first start of the server, with no data file.\<close>

definition initial :: "nat \<Rightarrow> state" where
  "initial now = startup now empty_store"

subsection \<open>Requests in flight\<close>

text \<open>
  The server and the requests that wait for their body, each with its connection, the
  \<open>userId\<close> and the user it holds in \<open>seller\<close> or \<open>buyer\<close>, and the request.
\<close>

record config =
  server :: state
  waiting :: "(nat \<times> ident \<times> user option \<times> request) list"

text \<open>
  Two events: a request arrives on a connection with its token, which runs the code up
  to the \<open>await\<close> or to the answer; and the body of the request on a connection has
  arrived, at a time and with random digits, which runs the code after the \<open>await\<close>.
\<close>

datatype ievent = Arrive nat string request | Body nat nat string

fun istep :: "config \<Rightarrow> ievent \<Rightarrow> config" where
  "istep c (Arrive k token req) =
     (let userId = resolve (tokenStore (server c)) token
      in case route_of req of
           None \<Rightarrow> c\<lparr>server := snd (immediate userId req (server c))\<rparr>
         | Some r \<Rightarrow>
             (case before_await r userId (server c) of
                Inl response \<Rightarrow> c
              | Inr actor \<Rightarrow> c\<lparr>waiting := (k, userId, actor, req) # waiting c\<rparr>))"
| "istep c (Body k now rnd) =
     (case map_of (waiting c) k of
        None \<Rightarrow> c
      | Some (userId, actor, req) \<Rightarrow>
          \<lparr>server = snd (after_await now rnd userId actor req (server c)),
           waiting = filter (\<lambda>w. fst w \<noteq> k) (waiting c)\<rparr>)"

definition irun :: "config \<Rightarrow> ievent list \<Rightarrow> config" where
  "irun c es = foldl istep c es"

text \<open>The first start of the server, with no request in flight.\<close>

definition boot :: "nat \<Rightarrow> config" where
  "boot now = \<lparr>server = initial now, waiting = []\<rparr>"

text \<open>A request that nothing interrupts, as two events on connection 0.\<close>

fun atomic :: "event \<Rightarrow> ievent list" where
  "atomic (now, rnd, token, req) = [Arrive 0 token req, Body 0 now rnd]"

subsection \<open>Properties of orders and states\<close>

text \<open>
  What the status of an order says about its escrow: nothing is held once the order is
  completed, the full amount is held before.
\<close>

definition escrow_consistent :: "order \<Rightarrow> bool" where
  "escrow_consistent x =
     (case o_status x of Completed \<Rightarrow> o_escrow x = Num 0 | In_progress \<Rightarrow> o_escrow x = o_amount x)"

text \<open>The equivalence between a completed status and an empty escrow.\<close>

definition settled_iff_zero :: "order \<Rightarrow> bool" where
  "settled_iff_zero x = ((o_status x = Completed) = (o_escrow x = Num 0))"

text \<open>The same equivalence, asked only of an order whose amount is not 0.\<close>

definition settled_unless_free :: "order \<Rightarrow> bool" where
  "settled_unless_free x = (o_amount x = Num 0 \<or> settled_iff_zero x)"

text \<open>
  No wallet of a user of \<open>us\<close> differs in \<open>us'\<close>: the records are the same, or one with
  the wallet 0 has been added at the end, or the first with some id has been taken out.
\<close>

definition keeps_wallets :: "user list \<Rightarrow> user list \<Rightarrow> bool" where
  "keeps_wallets us us' =
     (us' = us \<or> (\<exists>u. us' = us @ [u] \<and> u_wallet u = Num 0) \<or>
      (\<exists>uid. us' = remove_first (\<lambda>u. u_id u = uid) us))"

text \<open>
  The step from \<open>s\<close> to \<open>s'\<close> releases an escrow: the escrow that an order of \<open>s\<close>
  holds has been added to the wallet of the first user with the order's \<open>sellerId\<close>, and
  in \<open>s'\<close> the same order id finds an order that is completed and holds 0.
\<close>

definition releases :: "state \<Rightarrow> state \<Rightarrow> bool" where
  "releases s s' =
     (\<exists>orderId ord ord'.
        find_order (orders s) orderId = Some ord \<and>
        find_order (orders s') orderId = Some ord' \<and>
        o_status ord' = Completed \<and> o_escrow ord' = Num 0 \<and>
        users s' = credit (o_sellerId ord) (o_escrow ord) (users s))"

text \<open>The request whose code after the \<open>await\<close> an event runs, if it runs one.\<close>

definition delivers :: "config \<Rightarrow> ievent \<Rightarrow> request option" where
  "delivers c ev =
     (case ev of
        Arrive k token req \<Rightarrow> None
      | Body k now rnd \<Rightarrow>
          (case map_of (waiting c) k of None \<Rightarrow> None | Some (userId, actor, req) \<Rightarrow> Some req))"

text \<open>The two requests that release an escrow to a wallet.\<close>

definition releases_escrow :: "request \<Rightarrow> bool" where
  "releases_escrow req =
     (case req of CompleteOrder _ \<Rightarrow> True | AdmResolveDispute _ _ releaseToSeller \<Rightarrow> releaseToSeller
      | _ \<Rightarrow> False)"

text \<open>The finite doubles among the rationals, and the numbers that are doubles.\<close>

definition is_double :: "rat \<Rightarrow> bool" where
  "is_double v = (\<exists>m e. v = of_int m * pow2 e \<and> \<bar>m\<bar> \<le> 2 ^ 53 \<and> - 1074 \<le> e)"

fun is_number :: "jsnum \<Rightarrow> bool" where
  "is_number (Num v) = is_double v"
| "is_number NaN = True"
| "is_number (Inf s) = True"

definition wallets_nonneg :: "user list \<Rightarrow> bool" where
  "wallets_nonneg us = list_all (\<lambda>u. nonneg (u_wallet u)) us"

text \<open>User by user, the wallet in \<open>us'\<close> is not below the wallet in \<open>us\<close>.\<close>

definition wallets_grow :: "user list \<Rightarrow> user list \<Rightarrow> bool" where
  "wallets_grow us us' = list_all2 (\<lambda>u u'. jsle (u_wallet u) (u_wallet u')) us us'"

text \<open>A request that, if it creates a gig, gives it a price that is not below 0.\<close>

definition price_ok :: "request \<Rightarrow> bool" where
  "price_ok req =
     (case req of CreateGig _ _ price _ \<Rightarrow> nonneg (parseFloat price) | _ \<Rightarrow> True)"

fun ievent_price_ok :: "ievent \<Rightarrow> bool" where
  "ievent_price_ok (Arrive k token req) = price_ok req"
| "ievent_price_ok (Body k now rnd) = True"

text \<open>
  Nothing in the state is below 0: the wallets, which are doubles, the prices, the
  escrows, and the prices of the gigs that requests in flight will create.
\<close>

definition nonneg_state :: "state \<Rightarrow> bool" where
  "nonneg_state s =
     (wallets_nonneg (users s) \<and> list_all (\<lambda>u. is_number (u_wallet u)) (users s) \<and>
      list_all (\<lambda>g. nonneg (g_price g)) (gigs s) \<and>
      list_all (\<lambda>x. nonneg (o_escrow x)) (orders s))"

definition nonneg_config :: "config \<Rightarrow> bool" where
  "nonneg_config c =
     (nonneg_state (server c) \<and> list_all (\<lambda>w. price_ok (snd (snd (snd w)))) (waiting c))"

definition admin_count :: "user list \<Rightarrow> nat" where
  "admin_count us = length (filter (\<lambda>u. u_role u = ''admin'') us)"

subsection \<open>A sample session\<close>

text \<open>
  A seller (id 2), a buyer (id 3) and a bystander (id 4) register and log in, as does the
  administrator (id 1); the seller offers a gig for 50, the buyer orders it and files a
  dispute. The tokens are \<open>3s\<close>, \<open>6b\<close>, \<open>8e\<close> and \<open>9a\<close>.
\<close>

definition demo_events :: "event list" where
  "demo_events =
     [(1, [], [], Register ''sam'' ''sam@x.org'' ''pw1'' ''seller''),
      (2, [], [], Register ''bea'' ''bea@x.org'' ''pw2'' ''buyer''),
      (3, ''s'', [], Login ''sam@x.org'' ''pw1''),
      (4, [], ''3s'', CreateGig ''logo'' ''a logo'' (JNum 50) []),
      (5, [], [], Register ''eve'' ''eve@x.org'' ''pw3'' ''buyer''),
      (6, ''b'', [], Login ''bea@x.org'' ''pw2''),
      (7, [], ''6b'', CreateOrder ''1''),
      (8, ''e'', [], Login ''eve@x.org'' ''pw3''),
      (9, ''a'', [], Login ''admin@bazimn.local'' ''admin''),
      (10, [], ''6b'', CreateDispute ''1'' ''not delivered'')]"

definition demo :: state where
  "demo = run (initial 0) demo_events"

definition demo_order :: order where
  "demo_order =
     \<lparr>o_id = ''1'', o_buyerId = ''3'', o_sellerId = ''2'', o_gigId = ''1'', o_amount = Num 50,
      o_status = In_progress, o_createdAt = 7, o_escrow = Num 50, o_completedAt = None,
      o_messages = None\<rparr>"

text \<open>
  A session with a gig whose price is the string \<open>"0"\<close>: the buyer orders it twice and
  completes the first order.
\<close>

definition zero_price_events :: "event list" where
  "zero_price_events =
     [(1, [], [], Register ''sam'' ''sam@x.org'' ''pw1'' ''seller''),
      (2, [], [], Register ''bea'' ''bea@x.org'' ''pw2'' ''buyer''),
      (3, ''s'', [], Login ''sam@x.org'' ''pw1''),
      (4, [], ''3s'', CreateGig ''logo'' ''a logo'' (JStr ''0'') []),
      (6, ''b'', [], Login ''bea@x.org'' ''pw2''),
      (7, [], ''6b'', CreateOrder ''1''),
      (8, [], ''6b'', CreateOrder ''1'')]"

definition demo_dispute :: dispute where
  "demo_dispute =
     \<lparr>d_id = ''1'', d_orderId = ''1'', d_initiatorId = Known ''3'', d_reason = ''not delivered'',
      d_status = Open, d_resolution = None, d_createdAt = 10, d_resolvedAt = None\<rparr>"

text \<open>The sample session after the administrator has resolved the dispute in favour of the buyer.\<close>

definition demo_resolved :: state where
  "demo_resolved =
     run (initial 0) (demo_events @ [(11, [], ''9a'', AdmResolveDispute ''1'' (Some ''refund'') False)])"

text \<open>
  The sample session after the administrator has deleted the buyer, and with the buyer
  the order: the dispute is still open and names an order that is gone.
\<close>

definition demo_orphan :: state where
  "demo_orphan = run (initial 0) (demo_events @ [(11, [], ''9a'', AdmDeleteUser ''3'')])"

definition demo_order_done :: order where
  "demo_order_done = demo_order\<lparr>o_escrow := Num 0, o_status := Completed\<rparr>"

definition demo_dispute_done :: dispute where
  "demo_dispute_done =
     demo_dispute\<lparr>d_status := Resolved, d_resolution := Some ''refund'', d_resolvedAt := Some 11\<rparr>"

text \<open>
  The sample session as a run of the server with requests in flight, followed by a
  Complete-order of the buyer that has arrived on connection 7 and waits for its body.
\<close>

definition demo_ievents :: "ievent list" where
  "demo_ievents = concat (map atomic demo_events) @ [Arrive 7 ''6b'' (CompleteOrder ''1'')]"

subsection \<open>Sessions that go wrong\<close>

text \<open>The administrator logs in and deletes the administrator's own account.\<close>

definition admin_leaves_events :: "event list" where
  "admin_leaves_events =
     [(1, ''a'', [], Login ''admin@bazimn.local'' ''admin''),
      (2, [], ''1a'', AdmDeleteUser ''1'')]"

text \<open>The sample session with a gig at the price -5, ordered and completed.\<close>

definition negative_price_events :: "event list" where
  "negative_price_events =
     [(1, [], [], Register ''sam'' ''sam@x.org'' ''pw1'' ''seller''),
      (2, [], [], Register ''bea'' ''bea@x.org'' ''pw2'' ''buyer''),
      (3, ''s'', [], Login ''sam@x.org'' ''pw1''),
      (4, [], ''3s'', CreateGig ''logo'' ''a logo'' (JNum (- 5)) []),
      (6, ''b'', [], Login ''bea@x.org'' ''pw2''),
      (7, [], ''6b'', CreateOrder ''1''),
      (8, [], ''6b'', CompleteOrder ''1'')]"

text \<open>Two users register, the administrator deletes the first of them, a third registers.\<close>

definition reused_id_events :: "event list" where
  "reused_id_events =
     [(1, [], [], Register ''ann'' ''ann@x.org'' ''pw1'' ''buyer''),
      (2, [], [], Register ''bob'' ''bob@x.org'' ''pw2'' ''buyer''),
      (3, ''a'', [], Login ''admin@bazimn.local'' ''admin''),
      (4, [], ''3a'', AdmDeleteUser ''2''),
      (5, [], [], Register ''cy'' ''cy@x.org'' ''pw3'' ''buyer'')]"

text \<open>
  Three buyers: bea (id 3) and cy (id 4) order the gig of sam (orders 1 and 2), the
  administrator deletes bea and with bea the order 1, and dee (id 5, token \<open>dd\<close>) orders
  the gig. The collection has one order, so the order of dee gets the id 2 as well.
\<close>

definition hidden_order_events :: "event list" where
  "hidden_order_events =
     [(1, [], [], Register ''sam'' ''sam@x.org'' ''pw1'' ''seller''),
      (2, [], [], Register ''bea'' ''bea@x.org'' ''pw2'' ''buyer''),
      (3, [], [], Register ''cy'' ''cy@x.org'' ''pw3'' ''buyer''),
      (4, [], [], Register ''dee'' ''dee@x.org'' ''pw4'' ''buyer''),
      (5, ''s'', [], Login ''sam@x.org'' ''pw1''),
      (6, [], ''5s'', CreateGig ''logo'' ''a logo'' (JNum 50) []),
      (7, ''b'', [], Login ''bea@x.org'' ''pw2''),
      (8, [], ''7b'', CreateOrder ''1''),
      (9, ''c'', [], Login ''cy@x.org'' ''pw3''),
      (10, [], ''9c'', CreateOrder ''1''),
      (11, ''a'', [], Login ''admin@bazimn.local'' ''admin''),
      (12, [], ''ba'', AdmDeleteUser ''3''),
      (13, ''d'', [], Login ''dee@x.org'' ''pw4''),
      (14, [], ''dd'', CreateOrder ''1'')]"

text \<open>
  After the deletion of ann (id 2) the seller sam registers and gets the id 3, which
  the seller bob has. The gig that sam offers with the token \<open>7s\<close> is ordered by bea
  (id 4), who files a dispute.
\<close>

definition namesake_seller_events :: "event list" where
  "namesake_seller_events =
     [(1, [], [], Register ''ann'' ''ann@x.org'' ''pw1'' ''buyer''),
      (2, [], [], Register ''bob'' ''bob@x.org'' ''pw2'' ''seller''),
      (3, ''a'', [], Login ''admin@bazimn.local'' ''admin''),
      (4, [], ''3a'', AdmDeleteUser ''2''),
      (5, [], [], Register ''sam'' ''sam@x.org'' ''pw3'' ''seller''),
      (6, [], [], Register ''bea'' ''bea@x.org'' ''pw4'' ''buyer''),
      (7, ''s'', [], Login ''sam@x.org'' ''pw3''),
      (8, [], ''7s'', CreateGig ''logo'' ''a logo'' (JNum 50) []),
      (9, ''b'', [], Login ''bea@x.org'' ''pw4''),
      (10, [], ''9b'', CreateOrder ''1''),
      (11, [], ''9b'', CreateDispute ''1'' ''not delivered'')]"

text \<open>
  The request of sam (id 2) to create a gig has passed its checks and waits for its body
  on connection 1 when the administrator deletes sam; then the body arrives. The gig of
  the deleted seller is ordered by bea (id 3), who files a dispute.
\<close>

definition late_gig_events :: "ievent list" where
  "late_gig_events =
     atomic (1, [], [], Register ''sam'' ''sam@x.org'' ''pw1'' ''seller'') @
     atomic (2, [], [], Register ''bea'' ''bea@x.org'' ''pw2'' ''buyer'') @
     atomic (3, ''s'', [], Login ''sam@x.org'' ''pw1'') @
     atomic (4, ''a'', [], Login ''admin@bazimn.local'' ''admin'') @
     [Arrive 1 ''3s'' (CreateGig ''logo'' ''a logo'' (JNum 50) [])] @
     atomic (5, [], ''4a'', AdmDeleteUser ''2'') @
     [Body 1 6 []] @
     atomic (7, ''b'', [], Login ''bea@x.org'' ''pw2'') @
     atomic (8, [], ''7b'', CreateOrder ''1'') @
     atomic (9, [], ''7b'', CreateDispute ''1'' ''not delivered'')"

text \<open>
  bob (id 4) orders the gig of sam. After the deletion of ann (id 3) the collection has
  three users, so cy, who registers next, gets the id 4 as well, and logs in (token
  \<open>bc\<close>).
\<close>

definition shared_id_events :: "event list" where
  "shared_id_events =
     [(1, [], [], Register ''sam'' ''sam@x.org'' ''pw1'' ''seller''),
      (2, [], [], Register ''ann'' ''ann@x.org'' ''pw2'' ''buyer''),
      (3, [], [], Register ''bob'' ''bob@x.org'' ''pw3'' ''buyer''),
      (4, ''s'', [], Login ''sam@x.org'' ''pw1''),
      (5, [], ''4s'', CreateGig ''logo'' ''a logo'' (JNum 50) []),
      (6, ''b'', [], Login ''bob@x.org'' ''pw3''),
      (7, [], ''6b'', CreateOrder ''1''),
      (8, ''a'', [], Login ''admin@bazimn.local'' ''admin''),
      (9, [], ''8a'', AdmDeleteUser ''3''),
      (10, [], [], Register ''cy'' ''cy@x.org'' ''pw4'' ''buyer''),
      (11, ''c'', [], Login ''cy@x.org'' ''pw4'')]"

section \<open>Verification\<close>

subsection \<open>Facts about the array helpers\<close>

lemma find_split:
  "List.find p xs = Some x \<Longrightarrow> \<exists>ys zs. xs = ys @ x # zs \<and> p x \<and> (\<forall>y\<in>set ys. \<not> p y)"
proof (induction xs)
  case Nil
  then show ?case by simp
next
  case (Cons a xs)
  show ?case
  proof (cases "p a")
    case True
    with Cons.prems have "a = x" by simp
    with True have "a # xs = [] @ x # xs \<and> p x \<and> (\<forall>y\<in>set []. \<not> p y)" by simp
    then show ?thesis by blast
  next
    case False
    with Cons.prems have "List.find p xs = Some x" by simp
    from Cons.IH [OF this] obtain ys zs
      where "xs = ys @ x # zs" "p x" "\<forall>y\<in>set ys. \<not> p y" by blast
    with False have "a # xs = (a # ys) @ x # zs \<and> p x \<and> (\<forall>y\<in>set (a # ys). \<not> p y)" by simp
    then show ?thesis by blast
  qed
qed

lemma update_first_split:
  "\<forall>y\<in>set ys. \<not> p y \<Longrightarrow> p x \<Longrightarrow> update_first p f (ys @ x # zs) = ys @ f x # zs"
  by (induction ys) auto

lemma set_update_first:
  "y \<in> set (update_first p f xs) \<Longrightarrow> y \<in> set xs \<or> (\<exists>x\<in>set xs. p x \<and> y = f x)"
  by (induction xs) (auto split: if_splits)

lemma set_remove_first: "set (remove_first p xs) \<subseteq> set xs"
  by (induction xs) auto

lemma find_some_set: "List.find p xs = Some x \<Longrightarrow> x \<in> set xs \<and> p x"
  by (induction xs) (auto split: if_splits)

lemma list_all_update_first:
  "list_all P xs \<Longrightarrow> (\<And>x. P x \<Longrightarrow> p x \<Longrightarrow> P (f x)) \<Longrightarrow> list_all P (update_first p f xs)"
  by (induction xs) auto

lemma list_all_remove_first: "list_all P xs \<Longrightarrow> list_all P (remove_first p xs)"
  by (induction xs) auto

lemma find_order_set: "find_order os orderId = Some x \<Longrightarrow> x \<in> set os"
  unfolding find_order_def by (drule find_some_set) simp

lemma find_gig_set: "find_gig gs gigId = Some g \<Longrightarrow> g \<in> set gs"
  unfolding find_gig_def by (drule find_some_set) simp

text \<open>An update that keeps the id leaves the order where the lookup finds it.\<close>

lemma find_order_update:
  assumes "find_order os orderId = Some ord" and "\<And>x. o_id (f x) = o_id x"
  shows "find_order (update_first (\<lambda>x. o_id x = orderId) f os) orderId = Some (f ord)"
  using assms(1) unfolding find_order_def
  by (induction os) (auto simp: assms(2) split: if_splits)

subsection \<open>Facts about the doubles\<close>

text \<open>For evaluation the power of two is computed in the integers.\<close>

lemma pow2_code [code]:
  "pow2 e = (if 0 \<le> e then of_int (2 ^ nat e) else 1 / of_int (2 ^ nat (- e)))"
  by (simp add: pow2_def)

lemma pow2_eq: "pow2 e = power_int 2 e"
  by (simp add: pow2_def power_int_def power_one_over)

lemma pow2_pos: "0 < pow2 e"
  by (simp add: pow2_eq)

lemma pow2_add: "pow2 (a + b) = pow2 a * pow2 b"
  by (simp add: pow2_eq power_int_add)

lemma pow2_mono: "a \<le> b \<Longrightarrow> pow2 a \<le> pow2 b"
  by (simp add: pow2_eq power_int_increasing)

lemma pow2_nat: "0 \<le> e \<Longrightarrow> pow2 e = of_int (2 ^ nat e)"
  by (simp add: pow2_def)

lemma pow2_neg: "e \<le> 0 \<Longrightarrow> pow2 e = 1 / of_int (2 ^ nat (- e))"
  by (cases "e = 0") (simp_all add: pow2_def)

text \<open>\<open>ilog2\<close> is the binary logarithm, rounded down.\<close>

lemma ilog2_bounds:
  assumes "0 < a"
  shows "pow2 (ilog2 a) \<le> a \<and> a < pow2 (ilog2 a + 1)"
proof (cases "1 \<le> a")
  case True
  define n where "n = \<lfloor>a\<rfloor>"
  from True have n1: "1 \<le> n" unfolding n_def by simp
  then have n0: "0 < n" by simp
  from bitlen_bounds [OF n0] have lo: "2 ^ nat (bitlen n - 1) \<le> n" and hi: "n < 2 ^ nat (bitlen n)"
    by simp_all
  from n0 have b1: "1 \<le> bitlen n" by (simp add: bitlen_alt_def)
  have il: "ilog2 a = bitlen n - 1" using True by (simp add: ilog2_def n_def)
  have "pow2 (bitlen n - 1) = of_int (2 ^ nat (bitlen n - 1))" using b1 by (intro pow2_nat) simp
  also have "\<dots> \<le> of_int n" using lo by (rule of_int_le_iff [THEN iffD2])
  also have "\<dots> \<le> a" unfolding n_def by simp
  finally have low: "pow2 (ilog2 a) \<le> a" by (simp only: il)
  have "a < of_int (n + 1)" unfolding n_def by linarith
  also have "\<dots> \<le> of_int (2 ^ nat (bitlen n))"
  proof (rule of_int_le_iff [THEN iffD2])
    from hi show "n + 1 \<le> 2 ^ nat (bitlen n)" by simp
  qed
  also have "\<dots> = pow2 (bitlen n)" using b1 by (intro pow2_nat [symmetric]) simp
  finally have "a < pow2 (ilog2 a + 1)" by (simp add: il)
  with low show ?thesis by simp
next
  case False
  define y where "y = 1 / a"
  define c where "c = \<lceil>y\<rceil>"
  define k where "k = bitlen (c - 1)"
  from False assms have y1: "1 < y" unfolding y_def by simp
  then have c2: "2 \<le> c" unfolding c_def by (simp add: le_ceiling_iff)
  then have c0: "0 < c - 1" by simp
  from bitlen_bounds [OF c0] have lo: "2 ^ nat (k - 1) \<le> c - 1" and hi: "c - 1 < 2 ^ nat k"
    unfolding k_def by simp_all
  from c0 have k1: "1 \<le> k" unfolding k_def by (simp add: bitlen_alt_def)
  have il: "ilog2 a = - k" using False by (simp add: ilog2_def k_def c_def y_def)
  have "y \<le> of_int c" unfolding c_def by simp
  also have "\<dots> \<le> of_int (2 ^ nat k)"
  proof (rule of_int_le_iff [THEN iffD2])
    from hi show "c \<le> 2 ^ nat k" by simp
  qed
  finally have "y \<le> of_int (2 ^ nat k)" .
  then have "1 / of_int (2 ^ nat k) \<le> 1 / y"
    using y1 by (intro divide_left_mono) auto
  moreover have ya: "1 / y = a" unfolding y_def by simp
  moreover have "pow2 (- k) = 1 / of_int (2 ^ nat k)" using k1 by (simp add: pow2_neg)
  ultimately have low: "pow2 (ilog2 a) \<le> a" by (simp add: il)
  have "of_int (2 ^ nat (k - 1)) \<le> (of_int (c - 1) :: rat)"
    using lo by (rule of_int_le_iff [THEN iffD2])
  also have "\<dots> < y" unfolding c_def by (simp add: ceiling_less_iff [symmetric]) linarith
  finally have "of_int (2 ^ nat (k - 1)) < y" .
  then have "1 / y < 1 / of_int (2 ^ nat (k - 1))"
    using y1 by (intro divide_strict_left_mono) (auto intro: mult_pos_pos)
  moreover have "pow2 (- k + 1) = 1 / of_int (2 ^ nat (k - 1))"
    using k1 pow2_neg [of "1 - k"] by simp
  ultimately have "a < pow2 (ilog2 a + 1)" using ya by (simp add: il)
  with low show ?thesis by simp
qed

lemma round_half_even_ge: "of_int n \<le> x \<Longrightarrow> n \<le> round_half_even x"
proof -
  assume "of_int n \<le> x"
  then have "n \<le> \<lfloor>x\<rfloor>" by (simp add: le_floor_iff)
  then show ?thesis by (auto simp: round_half_even_def Let_def)
qed

lemma round_half_even_le: "x \<le> of_int n \<Longrightarrow> round_half_even x \<le> n"
proof (cases "x = of_int n")
  case True
  then show ?thesis by (simp add: round_half_even_def)
next
  case False
  assume "x \<le> of_int n"
  with False have "x < of_int n" by simp
  then have "\<lfloor>x\<rfloor> < n" by (simp add: floor_less_iff)
  then show ?thesis by (auto simp: round_half_even_def Let_def)
qed

text \<open>The rounding of a positive rational: a mantissa of at most 53 bits and its unit.\<close>

lemma round_double_cases:
  assumes "0 < x"
  obtains m e where "0 \<le> m" "- 1074 \<le> e" "m = round_half_even (x / pow2 e)"
    "e = max (ilog2 x - 52) (- 1074)" "m \<le> 2 ^ 53"
    "round_double x = (if pow2 1024 \<le> of_int m * pow2 e then Inf True else Num (of_int m * pow2 e))"
proof -
  define e where "e = max (ilog2 x - 52) (- 1074)"
  define m where "m = round_half_even (x / pow2 e)"
  have e1: "- 1074 \<le> e" unfolding e_def by simp
  have "of_int 0 \<le> x / pow2 e" using assms pow2_pos [of e] by simp
  then have m0: "0 \<le> m" unfolding m_def by (rule round_half_even_ge)
  from ilog2_bounds [OF assms] have "x < pow2 (ilog2 x + 1)" by simp
  also have "\<dots> \<le> pow2 (e + 53)" unfolding e_def by (intro pow2_mono) simp
  also have "\<dots> = pow2 e * of_int (2 ^ 53)" by (simp add: pow2_add pow2_nat)
  finally have "x / pow2 e \<le> of_int (2 ^ 53)"
    using pow2_pos [of e] by (simp add: field_simps)
  then have m53: "m \<le> 2 ^ 53" unfolding m_def by (rule round_half_even_le)
  have "round_double x = (if pow2 1024 \<le> of_int m * pow2 e then Inf True else Num (of_int m * pow2 e))"
    using assms by (simp add: round_double_def Let_def e_def m_def)
  with m0 e1 m53 show ?thesis using that [of m e] by (simp add: m_def e_def)
qed

lemma round_double_nonneg: "0 \<le> r \<Longrightarrow> nonneg (round_double r)"
proof (cases "r = 0")
  case True
  then show ?thesis by (simp add: round_double_def)
next
  case False
  assume "0 \<le> r"
  with False have "0 < r" by simp
  then obtain m e where "0 \<le> m"
    and r: "round_double r = (if pow2 1024 \<le> of_int m * pow2 e then Inf True else Num (of_int m * pow2 e))"
    by (rule round_double_cases)
  then show ?thesis using pow2_pos [of e] by simp
qed

lemma is_double_zero: "is_double 0"
  unfolding is_double_def by (intro exI [of _ 0]) simp

text \<open>Rounding does not go below a double that is not above the rational.\<close>

lemma round_double_ge:
  assumes d: "is_double d" and d0: "0 \<le> d" and dx: "d \<le> x"
  shows "jsle (Num d) (round_double x)"
proof (cases "x = 0")
  case True
  with d0 dx show ?thesis by (simp add: round_double_def)
next
  case False
  with d0 dx have x0: "0 < x" by simp
  from d obtain k e' where k: "d = of_int k * pow2 e'" "\<bar>k\<bar> \<le> 2 ^ 53" "- 1074 \<le> e'"
    unfolding is_double_def by blast
  from x0 obtain m e where m: "m = round_half_even (x / pow2 e)"
    and e: "e = max (ilog2 x - 52) (- 1074)"
    and r: "round_double x = (if pow2 1024 \<le> of_int m * pow2 e then Inf True else Num (of_int m * pow2 e))"
    by (rule round_double_cases)
  have "d \<le> of_int m * pow2 e"
  proof (cases "e \<le> e'")
    case True
    have "pow2 e' = pow2 e * pow2 (e' - e)" by (simp add: pow2_add [symmetric])
    also have "pow2 (e' - e) = of_int (2 ^ nat (e' - e))" using True by (intro pow2_nat) simp
    finally have dk: "d = of_int (k * 2 ^ nat (e' - e)) * pow2 e" by (simp add: k(1))
    with dx have "of_int (k * 2 ^ nat (e' - e)) \<le> x / pow2 e"
      using pow2_pos [of e] by (simp add: field_simps)
    then have "k * 2 ^ nat (e' - e) \<le> m" unfolding m by (rule round_half_even_ge)
    then have "(of_int (k * 2 ^ nat (e' - e)) :: rat) \<le> of_int m" by (rule of_int_le_iff [THEN iffD2])
    then have "of_int (k * 2 ^ nat (e' - e)) * pow2 e \<le> of_int m * pow2 e"
      using pow2_pos [of e] by (intro mult_right_mono) simp_all
    with dk show ?thesis by simp
  next
    case False
    with k(3) have el: "e = ilog2 x - 52" unfolding e by simp
    from ilog2_bounds [OF x0] have "pow2 (ilog2 x) \<le> x" by simp
    moreover have "pow2 (ilog2 x) = pow2 e * of_int (2 ^ 52)"
    proof -
      have "pow2 (ilog2 x) = pow2 (e + 52)" by (simp add: el)
      also have "\<dots> = pow2 e * of_int (2 ^ 52)" by (simp add: pow2_add pow2_nat)
      finally show ?thesis .
    qed
    ultimately have "of_int (2 ^ 52) \<le> x / pow2 e"
      using pow2_pos [of e] by (simp add: field_simps)
    then have "2 ^ 52 \<le> m" unfolding m by (rule round_half_even_ge)
    then have "(of_int (2 ^ 52) :: rat) \<le> of_int m" by (rule of_int_le_iff [THEN iffD2])
    then have big: "of_int (2 ^ 52) * pow2 e \<le> of_int m * pow2 e"
      using pow2_pos [of e] by (intro mult_right_mono) simp_all
    from k(2) have "k \<le> 2 ^ 53" by simp
    then have "(of_int k :: rat) \<le> of_int (2 ^ 53)" by (rule of_int_le_iff [THEN iffD2])
    then have "d \<le> of_int (2 ^ 53) * pow2 e'"
      unfolding k(1) using pow2_pos [of e'] by (intro mult_right_mono) simp_all
    also have "\<dots> = pow2 (e' + 53)" by (simp add: pow2_add pow2_nat)
    also have "\<dots> \<le> pow2 (e + 52)" using False by (intro pow2_mono) simp
    also have "\<dots> = of_int (2 ^ 52) * pow2 e" by (simp add: pow2_add pow2_nat)
    finally show ?thesis using big by simp
  qed
  then show ?thesis unfolding r by simp
qed

lemma round_double_is_double: "round_double r = Num v \<Longrightarrow> is_double v"
proof (cases "r = 0")
  case True
  assume "round_double r = Num v"
  with True show ?thesis by (simp add: round_double_def is_double_zero)
next
  case False
  assume rv: "round_double r = Num v"
  from False have a0: "0 < \<bar>r\<bar>" by simp
  then obtain m e where me: "0 \<le> m" "- 1074 \<le> e" "m \<le> 2 ^ 53"
    and m: "m = round_half_even (\<bar>r\<bar> / pow2 e)" and e: "e = max (ilog2 \<bar>r\<bar> - 52) (- 1074)"
    by (rule round_double_cases)
  from rv False have "v = (if r < 0 then - (of_int m * pow2 e) else of_int m * pow2 e)"
    by (simp add: round_double_def Let_def m e split: if_splits)
  then have "v = of_int (if r < 0 then - m else m) * pow2 e" by simp
  moreover have "\<bar>if r < 0 then - m else m\<bar> \<le> 2 ^ 53" using me by simp
  ultimately show ?thesis using me(2) unfolding is_double_def by blast
qed

lemma jsadd_is_number: "is_number (jsadd a b)"
  by (cases a; cases b) (auto dest: round_double_is_double intro: is_number.elims(3))

lemma nonneg_jsadd: "nonneg a \<Longrightarrow> nonneg b \<Longrightarrow> nonneg (jsadd a b)"
  by (cases a; cases b) (auto simp: round_double_nonneg)

lemma jsle_jsadd: "is_number w \<Longrightarrow> nonneg w \<Longrightarrow> nonneg a \<Longrightarrow> jsle w (jsadd w a)"
  by (cases a; cases w) (auto intro: round_double_ge)

lemma jsle_refl: "nonneg w \<Longrightarrow> jsle w w"
  by (cases w) auto

subsection \<open>What every step keeps\<close>

lemmas route_defs =
  register_def login_def create_gig_def get_gig_def list_orders_def create_order_def
  complete_order_def get_messages_def post_message_def create_dispute_def adm_list_def
  delete_gig_def delete_user_def resolve_dispute_def sendJson_def

lemma escrow_after:
  "list_all escrow_consistent (orders s) \<Longrightarrow>
   list_all escrow_consistent (orders (snd (after_await now rnd userId actor req s)))"
  unfolding after_await_def
  by (cases req)
     (auto simp: route_defs escrow_consistent_def Let_def list_all_iff
           dest!: set_update_first
           split: option.splits order_status.splits)

lemma escrow_immediate:
  "list_all escrow_consistent (orders s) \<Longrightarrow>
   list_all escrow_consistent (orders (snd (immediate userId req s)))"
  unfolding immediate_def
  by (cases req)
     (auto simp: route_defs escrow_consistent_def Let_def list_all_iff
           dest!: set_update_first
           split: option.splits collection.splits order_status.splits)

lemma escrow_istep:
  "list_all escrow_consistent (orders (server c)) \<Longrightarrow>
   list_all escrow_consistent (orders (server (istep c ev)))"
  by (cases ev) (auto simp: Let_def escrow_after escrow_immediate split: option.splits sum.splits)

lemma escrow_irun:
  "list_all escrow_consistent (orders (server c)) \<Longrightarrow>
   list_all escrow_consistent (orders (server (irun c es)))"
  unfolding irun_def
proof (induction es arbitrary: c)
  case Nil
  then show ?case by simp
next
  case (Cons e es)
  from Cons.prems have "list_all escrow_consistent (orders (server (istep c e)))"
    by (rule escrow_istep)
  from Cons.IH [OF this] show ?case by simp
qed

lemma escrow_boot: "list_all escrow_consistent (orders (server (boot t0)))"
  by (simp add: boot_def initial_def startup_def empty_store_def)

text \<open>A request that nothing interrupts is a run of two events.\<close>

lemma atomic_step:
  "irun \<lparr>server = s, waiting = []\<rparr> (atomic e) = \<lparr>server = step s e, waiting = []\<rparr>"
proof -
  obtain now rnd token req where e: "e = (now, rnd, token, req)" by (cases e) auto
  show ?thesis
    unfolding e
    by (auto simp: irun_def handleRequest_def Let_def split: option.splits sum.splits)
qed

lemma irun_append: "irun c (es @ fs) = irun (irun c es) fs"
  by (simp add: irun_def)

lemma run_is_irun:
  "irun \<lparr>server = s, waiting = []\<rparr> (concat (map atomic es)) = \<lparr>server = run s es, waiting = []\<rparr>"
proof (induction es arbitrary: s)
  case Nil
  then show ?case by (simp add: irun_def run_def)
next
  case (Cons e es)
  have "irun \<lparr>server = s, waiting = []\<rparr> (concat (map atomic (e # es)))
      = irun (irun \<lparr>server = s, waiting = []\<rparr> (atomic e)) (concat (map atomic es))"
    by (simp add: irun_append)
  also have "\<dots> = \<lparr>server = run (step s e) es, waiting = []\<rparr>"
    by (simp only: atomic_step Cons.IH)
  finally show ?case by (simp add: run_def)
qed


subsection \<open>How a step changes the users\<close>

lemma complete_order_users:
  "users (snd (complete_order now userId orderId s)) = users s \<or>
   releases s (snd (complete_order now userId orderId s))"
proof (cases "find_order (orders s) orderId")
  case None
  then show ?thesis by (simp add: complete_order_def sendJson_def)
next
  case (Some ord)
  let ?done = "\<lambda>x. x\<lparr>o_status := Completed, o_completedAt := Some now, o_escrow := Num 0\<rparr>"
  have found: "find_order (update_first (\<lambda>x. o_id x = orderId) ?done (orders s)) orderId
      = Some (?done ord)"
    using Some by (rule find_order_update) simp
  show ?thesis
  proof (cases "(\<not> is_id userId (o_buyerId ord) \<and> \<not> is_id userId (o_sellerId ord))
      \<or> o_status ord = Completed")
    case True
    with Some show ?thesis by (auto simp: complete_order_def sendJson_def)
  next
    case False
    with Some found have "releases s (snd (complete_order now userId orderId s))"
      unfolding releases_def
      by (intro exI [of _ orderId] exI [of _ ord] exI [of _ "?done ord"])
         (auto simp: complete_order_def sendJson_def Let_def)
    then show ?thesis by simp
  qed
qed

lemma resolve_dispute_users:
  "users (snd (resolve_dispute now disputeId resolution releaseToSeller s)) = users s \<or>
   (releaseToSeller \<and> releases s (snd (resolve_dispute now disputeId resolution releaseToSeller s)))"
proof (cases "find_dispute (disputes s) disputeId")
  case None
  then show ?thesis by (simp add: resolve_dispute_def sendJson_def)
next
  case (Some dis)
  show ?thesis
  proof (cases "find_order (orders s) (d_orderId dis)")
    case None
    with Some show ?thesis by (simp add: resolve_dispute_def sendJson_def Let_def)
  next
    case ord: (Some ord)
    let ?zero = "\<lambda>x. x\<lparr>o_escrow := Num 0, o_status := Completed\<rparr>"
    have found: "find_order (update_first (\<lambda>x. o_id x = d_orderId dis) ?zero (orders s))
        (d_orderId dis) = Some (?zero ord)"
      using ord by (rule find_order_update) simp
    show ?thesis
    proof (cases "d_status dis = Open \<and> releaseToSeller")
      case False
      with Some ord show ?thesis by (auto simp: resolve_dispute_def sendJson_def Let_def)
    next
      case True
      with Some ord found
      have "releases s (snd (resolve_dispute now disputeId resolution releaseToSeller s))"
        unfolding releases_def
        by (intro exI [of _ "d_orderId dis"] exI [of _ ord] exI [of _ "?zero ord"])
           (auto simp: resolve_dispute_def sendJson_def Let_def)
      with True show ?thesis by simp
    qed
  qed
qed

lemma wallet_after:
  "keeps_wallets (users s) (users (snd (after_await now rnd userId actor req s))) \<or>
   (releases s (snd (after_await now rnd userId actor req s)) \<and> releases_escrow req)"
proof (cases req)
  case (CompleteOrder orderId)
  with complete_order_users [of now userId orderId s] show ?thesis
    by (auto simp: after_await_def keeps_wallets_def releases_escrow_def)
next
  case (AdmResolveDispute disputeId resolution releaseToSeller)
  with resolve_dispute_users [of now disputeId resolution releaseToSeller s] show ?thesis
    by (auto simp: after_await_def keeps_wallets_def releases_escrow_def)
next
  case (Register username email password role)
  then show ?thesis
    by (auto simp: after_await_def register_def sendJson_def keeps_wallets_def Let_def)
next
  case (AdmDeleteUser uid)
  then show ?thesis
    by (auto simp: after_await_def delete_user_def sendJson_def keeps_wallets_def
             split: option.splits)
qed (auto simp: after_await_def route_defs keeps_wallets_def Let_def split: option.splits)

lemma users_immediate: "users (snd (immediate userId req s)) = users s"
  unfolding immediate_def
  by (cases req) (auto simp: route_defs Let_def split: option.splits collection.splits)

lemma wallet_istep:
  "keeps_wallets (users (server c)) (users (server (istep c ev))) \<or>
   (releases (server c) (server (istep c ev)) \<and>
    (\<exists>req. delivers c ev = Some req \<and> releases_escrow req))"
proof (cases ev)
  case (Arrive k token req)
  then have "users (server (istep c ev)) = users (server c)"
    by (auto simp: Let_def users_immediate split: option.splits sum.splits)
  then show ?thesis by (simp add: keeps_wallets_def)
next
  case (Body k now rnd)
  show ?thesis
  proof (cases "map_of (waiting c) k")
    case None
    with Body show ?thesis by (simp add: keeps_wallets_def)
  next
    case (Some w)
    obtain userId actor req where w: "w = (userId, actor, req)" by (cases w) auto
    from wallet_after [of "server c" now rnd userId actor req] Body Some w
    show ?thesis by (auto simp: delivers_def)
  qed
qed


subsection \<open>Wallets that are not below 0\<close>

lemma wallets_credit: "wallets_nonneg us \<Longrightarrow> nonneg a \<Longrightarrow> wallets_nonneg (credit sid a us)"
  unfolding wallets_nonneg_def credit_def
  by (rule list_all_update_first) (simp_all add: nonneg_jsadd)

lemma numbers_credit:
  "list_all (\<lambda>u. is_number (u_wallet u)) us \<Longrightarrow>
   list_all (\<lambda>u. is_number (u_wallet u)) (credit sid a us)"
  unfolding credit_def
  by (rule list_all_update_first) (simp_all add: jsadd_is_number)

lemma credit_grows:
  "wallets_nonneg us \<Longrightarrow> list_all (\<lambda>u. is_number (u_wallet u)) us \<Longrightarrow> nonneg a \<Longrightarrow>
   wallets_grow us (credit sid a us)"
  unfolding wallets_nonneg_def wallets_grow_def credit_def
  by (induction us) (auto simp: jsle_refl jsle_jsadd list_all2_same list_all_iff)

lemma wallets_append:
  "wallets_nonneg us \<Longrightarrow> nonneg (u_wallet u) \<Longrightarrow> wallets_nonneg (us @ [u])"
  unfolding wallets_nonneg_def by simp

lemma wallets_remove_first: "wallets_nonneg us \<Longrightarrow> wallets_nonneg (remove_first p us)"
  unfolding wallets_nonneg_def by (rule list_all_remove_first)

lemma nonneg_after:
  "nonneg_state s \<Longrightarrow> price_ok req \<Longrightarrow>
   nonneg_state (snd (after_await now rnd userId actor req s))"
  unfolding after_await_def nonneg_state_def
  by (cases req)
     (auto simp: route_defs price_ok_def Let_def list_all_iff is_double_zero
                 wallets_nonneg_def [symmetric]
                 wallets_credit numbers_credit [unfolded list_all_iff]
           intro!: wallets_credit wallets_append wallets_remove_first
           dest!: set_update_first set_remove_first [THEN subsetD] find_order_set find_gig_set
           split: option.splits)


lemma nonneg_immediate: "nonneg_state s \<Longrightarrow> nonneg_state (snd (immediate userId req s))"
  unfolding immediate_def nonneg_state_def
  by (cases req)
     (auto simp: route_defs Let_def list_all_iff
           dest!: set_update_first
           split: option.splits collection.splits)

lemma waiting_price_ok:
  "list_all (\<lambda>w. price_ok (snd (snd (snd w)))) ws \<Longrightarrow> map_of ws k = Some (userId, actor, req) \<Longrightarrow>
   price_ok req"
  by (auto simp: list_all_iff dest!: map_of_SomeD)

lemma nonneg_istep: "nonneg_config c \<Longrightarrow> ievent_price_ok ev \<Longrightarrow> nonneg_config (istep c ev)"
proof (cases ev)
  case (Arrive k token req)
  assume "nonneg_config c" "ievent_price_ok ev"
  with Arrive show ?thesis
    by (auto simp: nonneg_config_def Let_def nonneg_immediate split: option.splits sum.splits)
next
  case (Body k now rnd)
  assume c: "nonneg_config c"
  show ?thesis
  proof (cases "map_of (waiting c) k")
    case None
    with Body c show ?thesis by simp
  next
    case (Some w)
    obtain userId actor req where w: "w = (userId, actor, req)" by (cases w) auto
    from c Some w have "price_ok req" unfolding nonneg_config_def by (auto dest: waiting_price_ok)
    with c have "nonneg_state (snd (after_await now rnd userId actor req (server c)))"
      unfolding nonneg_config_def by (auto intro: nonneg_after)
    with c Body Some w show ?thesis by (simp add: nonneg_config_def list_all_iff)
  qed
qed

lemma nonneg_irun: "nonneg_config c \<Longrightarrow> list_all ievent_price_ok es \<Longrightarrow> nonneg_config (irun c es)"
  unfolding irun_def
proof (induction es arbitrary: c)
  case Nil
  then show ?case by simp
next
  case (Cons e es)
  from Cons.prems have "nonneg_config (istep c e)" by (intro nonneg_istep) simp_all
  moreover from Cons.prems have "list_all ievent_price_ok es" by simp
  ultimately have "nonneg_config (foldl istep (istep c e) es)" by (rule Cons.IH)
  then show ?case by simp
qed

lemma nonneg_boot: "nonneg_config (boot t0)"
  by (simp add: nonneg_config_def nonneg_state_def wallets_nonneg_def boot_def initial_def
                startup_def empty_store_def adminUser_def is_double_zero)

lemma release_grows:
  assumes "nonneg_state s" and "releases s s'"
  shows "wallets_grow (users s) (users s')"
proof -
  from assms(2) obtain orderId ord
    where ord: "find_order (orders s) orderId = Some ord"
      and us: "users s' = credit (o_sellerId ord) (o_escrow ord) (users s)"
    unfolding releases_def by blast
  from ord have "ord \<in> set (orders s)" by (rule find_order_set)
  with assms(1) have "nonneg (o_escrow ord)" by (simp add: nonneg_state_def list_all_iff)
  with assms(1) show ?thesis unfolding us nonneg_state_def by (intro credit_grows) simp_all
qed

subsection \<open>Escrow and status\<close>

text \<open>
  Claim C1, as the code has it. In every state that the server reaches from a first
  start, whatever the order in which the requests arrive and their bodies are read, and so
  right after every Complete-order and every Resolve-dispute, an order whose status is
  completed has escrow 0 and an order in progress has its full amount as escrow; so the
  status is completed exactly when the escrow is 0 for every order whose amount is not 0.
  No step credits a wallet without the status flip: a step leaves the wallets of the users
  as they are (the users stay, or one with wallet 0 is added, or one is removed), or it
  adds the escrow of an order to a wallet and leaves that order completed with escrow 0.
\<close>

theorem escrow_status_invariant:
  "list_all escrow_consistent (orders (server (irun (boot t0) es))) \<and>
   list_all settled_unless_free (orders (server (irun (boot t0) es))) \<and>
   (keeps_wallets (users (server c)) (users (server (istep c ev))) \<or>
    releases (server c) (server (istep c ev)))"
proof -
  have e: "list_all escrow_consistent (orders (server (irun (boot t0) es)))"
    using escrow_boot by (rule escrow_irun)
  have "settled_unless_free x" if "escrow_consistent x" for x
    using that
    by (cases "o_status x")
       (auto simp: escrow_consistent_def settled_unless_free_def settled_iff_zero_def)
  with e have "list_all settled_unless_free (orders (server (irun (boot t0) es)))"
    by (simp add: list_all_iff)
  with e wallet_istep [of c ev] show ?thesis by blast
qed

text \<open>
  Claim C1 as stated asks for the converse too: escrow 0 only for a completed order. A gig
  whose price is the string \<open>"0"\<close> passes the \<open>!price\<close> test and has the price 0; an
  order on it is in progress with escrow 0, also after a Complete-order on another order.
\<close>

theorem zero_escrow_in_progress_counterexample:
  "fst (fst (handleRequest 9 [] ''6b'' (CompleteOrder ''1'') (run (initial 0) zero_price_events))) = 200 \<and>
   \<not> list_all settled_iff_zero
       (orders (snd (handleRequest 9 [] ''6b'' (CompleteOrder ''1'')
          (run (initial 0) zero_price_events))))"
  by code_simp

text \<open>
  The sample session, and the step in which the body of the buyer's Complete-order is
  read.
\<close>

theorem escrow_status_invariant_witness:
  "list_all escrow_consistent (orders (server (irun (boot 0) demo_ievents))) \<and>
   list_all settled_unless_free (orders (server (irun (boot 0) demo_ievents))) \<and>
   (keeps_wallets (users (server (irun (boot 0) demo_ievents)))
      (users (server (istep (irun (boot 0) demo_ievents) (Body 7 11 [])))) \<or>
    releases (server (irun (boot 0) demo_ievents))
      (server (istep (irun (boot 0) demo_ievents) (Body 7 11 []))))"
  by (rule escrow_status_invariant)

subsection \<open>Completing an order\<close>

text \<open>
  Claim C2. The claim holds for an order that is the only one with its id. The code gives
  a new order the length of the collection plus one as its id, so that after a deletion
  two orders carry one id; Complete-order then finds the older of the two. In the session
  below the orders of cy and of dee both have the id 2 and are in progress; dee, the buyer
  of the second, asks to complete the order 2 and gets 403, and nothing changes.
\<close>

theorem hidden_order_not_completed:
  "map o_id (orders (run (initial 0) hidden_order_events)) = [''2'', ''2''] \<and>
   map o_buyerId (orders (run (initial 0) hidden_order_events)) = [''4'', ''5''] \<and>
   map o_status (orders (run (initial 0) hidden_order_events)) = [In_progress, In_progress] \<and>
   resolve (tokenStore (run (initial 0) hidden_order_events)) ''dd'' = Known ''5'' \<and>
   fst (handleRequest 15 [] ''dd'' (CompleteOrder ''2'') (run (initial 0) hidden_order_events))
     = (403, Error ''Not authorized for this order'') \<and>
   snd (handleRequest 15 [] ''dd'' (CompleteOrder ''2'') (run (initial 0) hidden_order_events))
     = run (initial 0) hidden_order_events"
  by code_simp

subsection \<open>Resolving a dispute\<close>

text \<open>
  Claim C3. The claim holds when the seller of the order is the one user with the order's
  \<open>sellerId\<close>. Two sessions in which the release to the seller does not reach the seller.
  In the first the seller is deleted while the seller's request to create the gig waits
  for its body, the gig is stored all the same and ordered; the resolution with
  \<open>releaseToSeller\<close> answers 200, completes the order with escrow 0 and credits nobody.
  In the second sam has got the id 3 that bob has, logs in (token \<open>7s\<close>) and offers the
  gig; the resolution credits the 50 to bob, the first user with the id 3.
\<close>

theorem release_misses_seller:
  "map u_id (users (server (irun (boot 0) late_gig_events))) = [''1'', ''3''] \<and>
   map o_sellerId (orders (server (irun (boot 0) late_gig_events))) = [''2''] \<and>
   map o_escrow (orders (server (irun (boot 0) late_gig_events))) = [Num 50] \<and>
   fst (fst (handleRequest 10 [] ''4a'' (AdmResolveDispute ''1'' (Some ''pay the seller'') True)
     (server (irun (boot 0) late_gig_events)))) = 200 \<and>
   map o_status (orders (snd (handleRequest 10 [] ''4a''
     (AdmResolveDispute ''1'' (Some ''pay the seller'') True)
     (server (irun (boot 0) late_gig_events))))) = [Completed] \<and>
   map o_escrow (orders (snd (handleRequest 10 [] ''4a''
     (AdmResolveDispute ''1'' (Some ''pay the seller'') True)
     (server (irun (boot 0) late_gig_events))))) = [Num 0] \<and>
   map u_wallet (users (snd (handleRequest 10 [] ''4a''
     (AdmResolveDispute ''1'' (Some ''pay the seller'') True)
     (server (irun (boot 0) late_gig_events))))) = [Num 0, Num 0] \<and>
   fst (handleRequest 7 ''s'' [] (Login ''sam@x.org'' ''pw3'')
     (run (initial 0) (take 6 namesake_seller_events))) = (200, LoggedIn ''7s'' ''seller'' ''3'') \<and>
   map u_username (users (run (initial 0) namesake_seller_events))
     = [''admin'', ''bob'', ''sam'', ''bea''] \<and>
   map u_id (users (run (initial 0) namesake_seller_events)) = [''1'', ''3'', ''3'', ''4''] \<and>
   fst (fst (handleRequest 12 [] ''3a'' (AdmResolveDispute ''1'' (Some ''pay the seller'') True)
     (run (initial 0) namesake_seller_events))) = 200 \<and>
   map u_wallet (users (snd (handleRequest 12 [] ''3a''
     (AdmResolveDispute ''1'' (Some ''pay the seller'') True)
     (run (initial 0) namesake_seller_events)))) = [Num 0, Num 50, Num 0, Num 0]"
  by code_simp

subsection \<open>Terminal states\<close>

text \<open>
  Claim C4. A Complete-order on an order that is already completed changes nothing and
  fails: with 400 "Order already completed" for the buyer or the seller, with 401 or 403
  for anyone else. A Resolve-dispute on a dispute that is already resolved changes nothing
  and fails: with 400 "Dispute already resolved" for an administrator, with 403 for
  anyone else.
\<close>

theorem terminal_transitions_rejected:
  "(find_order (orders s) orderId = Some ord \<and> o_status ord = Completed \<longrightarrow>
      snd (handleRequest now rnd token (CompleteOrder orderId) s) = s \<and>
      fst (fst (handleRequest now rnd token (CompleteOrder orderId) s)) \<in> {400, 401, 403} \<and>
      (is_id (resolve (tokenStore s) token) (o_buyerId ord) \<or>
       is_id (resolve (tokenStore s) token) (o_sellerId ord) \<longrightarrow>
         fst (handleRequest now rnd token (CompleteOrder orderId) s)
           = (400, Error ''Order already completed''))) \<and>
   (find_dispute (disputes s) disputeId = Some dis \<and> d_status dis = Resolved \<longrightarrow>
      snd (handleRequest now rnd token (AdmResolveDispute disputeId resolution release) s) = s \<and>
      fst (fst (handleRequest now rnd token (AdmResolveDispute disputeId resolution release) s))
        \<in> {400, 403} \<and>
      (has_role (users s) (resolve (tokenStore s) token) ''admin'' \<longrightarrow>
         fst (handleRequest now rnd token (AdmResolveDispute disputeId resolution release) s)
           = (400, Error ''Dispute already resolved'')))"
  by (cases "resolve (tokenStore s) token")
     (auto simp: handleRequest_def route_of_def before_await_def after_await_def
                 complete_order_def resolve_dispute_def
                 sendJson_def Let_def)


text \<open>
  After the dispute of the sample session is resolved, the buyer tries to complete the
  order and the administrator tries to resolve the dispute again.
\<close>

theorem terminal_transitions_rejected_witness:
  "(find_order (orders demo_resolved) ''1'' = Some demo_order_done \<and>
    o_status demo_order_done = Completed \<and>
    is_id (resolve (tokenStore demo_resolved) ''6b'') (o_buyerId demo_order_done)) \<and>
   (find_dispute (disputes demo_resolved) ''1'' = Some demo_dispute_done \<and>
    d_status demo_dispute_done = Resolved \<and>
    has_role (users demo_resolved) (resolve (tokenStore demo_resolved) ''9a'') ''admin'') \<and>
   snd (handleRequest 12 [] ''6b'' (CompleteOrder ''1'') demo_resolved) = demo_resolved \<and>
   fst (handleRequest 12 [] ''6b'' (CompleteOrder ''1'') demo_resolved)
     = (400, Error ''Order already completed'') \<and>
   snd (handleRequest 12 [] ''9a'' (AdmResolveDispute ''1'' (Some ''again'') True) demo_resolved)
     = demo_resolved \<and>
   fst (handleRequest 12 [] ''9a'' (AdmResolveDispute ''1'' (Some ''again'') True) demo_resolved)
     = (400, Error ''Dispute already resolved'')"
proof -
  have h1: "find_order (orders demo_resolved) ''1'' = Some demo_order_done \<and>
    o_status demo_order_done = Completed \<and>
    is_id (resolve (tokenStore demo_resolved) ''6b'') (o_buyerId demo_order_done)"
    by code_simp
  have h2: "find_dispute (disputes demo_resolved) ''1'' = Some demo_dispute_done \<and>
    d_status demo_dispute_done = Resolved \<and>
    has_role (users demo_resolved) (resolve (tokenStore demo_resolved) ''9a'') ''admin''"
    by code_simp
  note t1 = terminal_transitions_rejected
    [where s = demo_resolved and orderId = "''1''" and ord = demo_order_done and now = 12
       and rnd = "[]" and token = "''6b''" and disputeId = "''1''" and dis = demo_dispute_done
       and resolution = "Some ''again''" and release = True]
  note t2 = terminal_transitions_rejected
    [where s = demo_resolved and orderId = "''1''" and ord = demo_order_done and now = 12
       and rnd = "[]" and token = "''9a''" and disputeId = "''1''" and dis = demo_dispute_done
       and resolution = "Some ''again''" and release = True]
  from t1 h1 have c1: "snd (handleRequest 12 [] ''6b'' (CompleteOrder ''1'') demo_resolved) = demo_resolved"
    and c2: "fst (handleRequest 12 [] ''6b'' (CompleteOrder ''1'') demo_resolved)
     = (400, Error ''Order already completed'')"
    by blast+
  from t2 h2 have c3: "snd (handleRequest 12 [] ''9a'' (AdmResolveDispute ''1'' (Some ''again'') True)
      demo_resolved) = demo_resolved"
    and c4: "fst (handleRequest 12 [] ''9a'' (AdmResolveDispute ''1'' (Some ''again'') True) demo_resolved)
     = (400, Error ''Dispute already resolved'')"
    by blast+
  show ?thesis by (intro conjI h1 h2 c1 c2 c3 c4)
qed

subsection \<open>A dispute without its order\<close>

text \<open>
  Claim C5, as the code has it. For an administrator, Resolve-dispute answers 404 when no
  dispute has the id and 400 when the dispute is not open. It does not ask for the order:
  when the open dispute names an order that no longer exists, the answer is 200, the
  dispute becomes resolved with resolution and time, and neither an order nor a wallet
  changes.
\<close>

theorem resolve_dispute_validations:
  assumes admin: "has_role (users s) (resolve (tokenStore s) token) ''admin''"
  shows "(find_dispute (disputes s) disputeId = None \<longrightarrow>
            handleRequest now rnd token (AdmResolveDispute disputeId resolution release) s
              = ((404, Error ''Dispute not found''), s)) \<and>
         (\<forall>dis. find_dispute (disputes s) disputeId = Some dis \<and> d_status dis \<noteq> Open \<longrightarrow>
            handleRequest now rnd token (AdmResolveDispute disputeId resolution release) s
              = ((400, Error ''Dispute already resolved''), s)) \<and>
         (\<forall>dis. find_dispute (disputes s) disputeId = Some dis \<and> d_status dis = Open \<and>
                find_order (orders s) (d_orderId dis) = None \<longrightarrow>
            (\<exists>ds1 ds2.
               disputes s = ds1 @ dis # ds2 \<and> (\<forall>d\<in>set ds1. d_id d \<noteq> disputeId) \<and>
               handleRequest now rnd token (AdmResolveDispute disputeId resolution release) s
                 = ((200, DisputeResolved
                            (dis\<lparr>d_status := Resolved, d_resolution := resolution,
                                 d_resolvedAt := Some now\<rparr>)),
                    s\<lparr>disputes := ds1 @ dis\<lparr>d_status := Resolved, d_resolution := resolution,
                                              d_resolvedAt := Some now\<rparr> # ds2\<rparr>)))"
proof (intro conjI allI impI)
  assume "find_dispute (disputes s) disputeId = None"
  with admin show "handleRequest now rnd token (AdmResolveDispute disputeId resolution release) s
              = ((404, Error ''Dispute not found''), s)"
    by (simp add: handleRequest_def route_of_def before_await_def after_await_def
                  resolve_dispute_def sendJson_def)
next
  fix dis
  assume "find_dispute (disputes s) disputeId = Some dis \<and> d_status dis \<noteq> Open"
  with admin show "handleRequest now rnd token (AdmResolveDispute disputeId resolution release) s
              = ((400, Error ''Dispute already resolved''), s)"
    by (simp add: handleRequest_def route_of_def before_await_def after_await_def
                  resolve_dispute_def sendJson_def)
next
  fix dis
  assume a: "find_dispute (disputes s) disputeId = Some dis \<and> d_status dis = Open \<and>
                find_order (orders s) (d_orderId dis) = None"
  then have found: "List.find (\<lambda>d. d_id d = disputeId) (disputes s) = Some dis"
    by (simp add: find_dispute_def)
  from find_split [OF found] obtain ds1 ds2
    where ds: "disputes s = ds1 @ dis # ds2" "d_id dis = disputeId"
      "\<forall>d\<in>set ds1. d_id d \<noteq> disputeId"
    by blast
  have upd_d: "update_first (\<lambda>d. d_id d = disputeId) f (disputes s) = ds1 @ f dis # ds2" for f
    unfolding ds(1) using ds(2,3) by (intro update_first_split) auto
  have "handleRequest now rnd token (AdmResolveDispute disputeId resolution release) s
                 = ((200, DisputeResolved
                            (dis\<lparr>d_status := Resolved, d_resolution := resolution,
                                 d_resolvedAt := Some now\<rparr>)),
                    s\<lparr>disputes := ds1 @ dis\<lparr>d_status := Resolved, d_resolution := resolution,
                                              d_resolvedAt := Some now\<rparr> # ds2\<rparr>)"
    using admin a
    by (simp add: handleRequest_def route_of_def before_await_def after_await_def
                  resolve_dispute_def sendJson_def Let_def upd_d)
  with ds show "\<exists>ds1 ds2.
               disputes s = ds1 @ dis # ds2 \<and> (\<forall>d\<in>set ds1. d_id d \<noteq> disputeId) \<and>
               handleRequest now rnd token (AdmResolveDispute disputeId resolution release) s
                 = ((200, DisputeResolved
                            (dis\<lparr>d_status := Resolved, d_resolution := resolution,
                                 d_resolvedAt := Some now\<rparr>)),
                    s\<lparr>disputes := ds1 @ dis\<lparr>d_status := Resolved, d_resolution := resolution,
                                              d_resolvedAt := Some now\<rparr> # ds2\<rparr>)"
    by blast
qed

text \<open>
  Claim C5 as stated lets the operation fail with 404 and leave the dispute open. In the
  sample session, once the buyer and with the buyer the order are deleted, resolving the
  dispute answers 200 and the dispute is resolved.
\<close>

theorem resolve_without_order_counterexample:
  "find_dispute (disputes demo_orphan) ''1'' = Some demo_dispute \<and>
   find_order (orders demo_orphan) (d_orderId demo_dispute) = None \<and>
   fst (fst (handleRequest 12 [] ''9a'' (AdmResolveDispute ''1'' (Some ''refund'') False) demo_orphan))
     = 200 \<and>
   map d_status
     (disputes (snd (handleRequest 12 [] ''9a'' (AdmResolveDispute ''1'' (Some ''refund'') False)
        demo_orphan))) = [Resolved]"
  by code_simp

text \<open>
  The same state, for an unknown dispute id and for the dispute whose order is gone, and
  the sample session after the resolution, for the dispute that is resolved.
\<close>

theorem resolve_dispute_validations_witness:
  "has_role (users demo_orphan) (resolve (tokenStore demo_orphan) ''9a'') ''admin'' \<and>
   find_dispute (disputes demo_orphan) ''7'' = None \<and>
   handleRequest 12 [] ''9a'' (AdmResolveDispute ''7'' None False) demo_orphan
     = ((404, Error ''Dispute not found''), demo_orphan) \<and>
   find_dispute (disputes demo_orphan) ''1'' = Some demo_dispute \<and>
   d_status demo_dispute = Open \<and>
   find_order (orders demo_orphan) (d_orderId demo_dispute) = None \<and>
   (\<exists>ds1 ds2.
      disputes demo_orphan = ds1 @ demo_dispute # ds2 \<and> (\<forall>d\<in>set ds1. d_id d \<noteq> ''1'') \<and>
      handleRequest 12 [] ''9a'' (AdmResolveDispute ''1'' (Some ''refund'') False) demo_orphan
        = ((200, DisputeResolved
                   (demo_dispute\<lparr>d_status := Resolved, d_resolution := Some ''refund'',
                                  d_resolvedAt := Some 12\<rparr>)),
           demo_orphan\<lparr>disputes := ds1 @ demo_dispute\<lparr>d_status := Resolved,
                                         d_resolution := Some ''refund'',
                                         d_resolvedAt := Some 12\<rparr> # ds2\<rparr>)) \<and>
   has_role (users demo_resolved) (resolve (tokenStore demo_resolved) ''9a'') ''admin'' \<and>
   find_dispute (disputes demo_resolved) ''1'' = Some demo_dispute_done \<and>
   d_status demo_dispute_done \<noteq> Open \<and>
   handleRequest 12 [] ''9a'' (AdmResolveDispute ''1'' None True) demo_resolved
     = ((400, Error ''Dispute already resolved''), demo_resolved)"
proof -
  have h1: "has_role (users demo_orphan) (resolve (tokenStore demo_orphan) ''9a'') ''admin''"
    by code_simp
  have h2: "find_dispute (disputes demo_orphan) ''7'' = None" by code_simp
  have h3: "find_dispute (disputes demo_orphan) ''1'' = Some demo_dispute" by code_simp
  have h4: "d_status demo_dispute = Open" by code_simp
  have h5: "find_order (orders demo_orphan) (d_orderId demo_dispute) = None" by code_simp
  from resolve_dispute_validations [OF h1, of "''7''" 12 "[]" None False] h2
  have c1: "handleRequest 12 [] ''9a'' (AdmResolveDispute ''7'' None False) demo_orphan
     = ((404, Error ''Dispute not found''), demo_orphan)"
    by blast
  from resolve_dispute_validations [OF h1, of "''1''" 12 "[]" "Some ''refund''" False] h3 h4 h5
  have c2: "\<exists>ds1 ds2.
      disputes demo_orphan = ds1 @ demo_dispute # ds2 \<and> (\<forall>d\<in>set ds1. d_id d \<noteq> ''1'') \<and>
      handleRequest 12 [] ''9a'' (AdmResolveDispute ''1'' (Some ''refund'') False) demo_orphan
        = ((200, DisputeResolved
                   (demo_dispute\<lparr>d_status := Resolved, d_resolution := Some ''refund'',
                                  d_resolvedAt := Some 12\<rparr>)),
           demo_orphan\<lparr>disputes := ds1 @ demo_dispute\<lparr>d_status := Resolved,
                                         d_resolution := Some ''refund'',
                                         d_resolvedAt := Some 12\<rparr> # ds2\<rparr>)"
    by blast
  have h6: "has_role (users demo_resolved) (resolve (tokenStore demo_resolved) ''9a'') ''admin''"
    by code_simp
  have h7: "find_dispute (disputes demo_resolved) ''1'' = Some demo_dispute_done" by code_simp
  have h8: "d_status demo_dispute_done \<noteq> Open" by code_simp
  from resolve_dispute_validations [OF h6, of "''1''" 12 "[]" None True] h7 h8
  have c3: "handleRequest 12 [] ''9a'' (AdmResolveDispute ''1'' None True) demo_resolved
     = ((400, Error ''Dispute already resolved''), demo_resolved)"
    by blast
  show ?thesis by (intro conjI h1 h2 h3 h4 h5 c1 c2 h6 h7 h8 c3)
qed

subsection \<open>Who may read, write and dispute\<close>

text \<open>
  Claim C6. The claim holds while every user has an id of its own. The code gives a new
  user the length of the collection plus one as its id, and the token of a user stands
  for that id. In the session below bob (id 4) is the buyer of order 1; after the
  deletion of ann, cy registers, gets the id 4 as well and logs in (token \<open>bc\<close>). cy is
  neither the buyer nor the seller of the order nor an administrator, and reads its
  messages, posts a message and files a dispute on it.
\<close>

theorem namesake_reads_messages:
  "map u_username (users (run (initial 0) shared_id_events)) = [''admin'', ''sam'', ''bob'', ''cy''] \<and>
   map u_id (users (run (initial 0) shared_id_events)) = [''1'', ''2'', ''4'', ''4''] \<and>
   map u_role (users (run (initial 0) shared_id_events))
     = [''admin'', ''seller'', ''buyer'', ''buyer''] \<and>
   map o_buyerId (orders (run (initial 0) shared_id_events)) = [''4''] \<and>
   map o_sellerId (orders (run (initial 0) shared_id_events)) = [''2''] \<and>
   fst (handleRequest 11 ''c'' [] (Login ''cy@x.org'' ''pw4'')
     (run (initial 0) (butlast shared_id_events))) = (200, LoggedIn ''bc'' ''buyer'' ''4'') \<and>
   fst (fst (handleRequest 12 [] ''bc'' (GetMessages ''1'') (run (initial 0) shared_id_events)))
     = 200 \<and>
   fst (fst (handleRequest 12 [] ''bc'' (PostMessage ''1'' ''hello'')
     (run (initial 0) shared_id_events))) = 201 \<and>
   fst (fst (handleRequest 12 [] ''bc'' (CreateDispute ''1'' ''late'')
     (run (initial 0) shared_id_events))) = 201"
  by code_simp

subsection \<open>Deleting a user\<close>

text \<open>
  Claim C10. The claim holds for a user that is the only one with its id. In the session
  of claim C9 bob and cy both have the id 3. The request to delete the user 3 answers 200
  and removes bob; cy, who has the id of the request, is still a user afterwards.
\<close>

theorem delete_user_removes_namesake:
  "map u_username (users (run (initial 0) reused_id_events)) = [''admin'', ''bob'', ''cy''] \<and>
   map u_id (users (run (initial 0) reused_id_events)) = [''1'', ''3'', ''3''] \<and>
   fst (fst (handleRequest 6 [] ''3a'' (AdmDeleteUser ''3'') (run (initial 0) reused_id_events)))
     = 200 \<and>
   map u_username (users (snd (handleRequest 6 [] ''3a'' (AdmDeleteUser ''3'')
     (run (initial 0) reused_id_events)))) = [''admin'', ''cy''] \<and>
   map u_id (users (snd (handleRequest 6 [] ''3a'' (AdmDeleteUser ''3'')
     (run (initial 0) reused_id_events)))) = [''1'', ''3'']"
  by code_simp

subsection \<open>The administrators\<close>

text \<open>
  Claim C7. The start-up provides an administrator when there is none, the page of the
  administrator shows no Delete button for an administrator, and the registration is
  meant for buyers and sellers. But the request to delete a user does not look at the
  role, and the registration stores the role it is given: after a first start the
  administrator logs in and deletes the administrator's own account, and no administrator
  is left; and a registration with the role \<open>admin\<close> makes a second administrator.
\<close>

theorem admin_count_not_kept:
  "admin_count (users (initial 0)) = 1 \<and>
   fst (fst (handleRequest 2 [] ''1a'' (AdmDeleteUser ''1'')
     (run (initial 0) (butlast admin_leaves_events)))) = 200 \<and>
   admin_count (users (run (initial 0) admin_leaves_events)) = 0 \<and>
   fst (fst (handleRequest 1 [] [] (Register ''eve'' ''eve@x.org'' ''pw'' ''admin'') (initial 0)))
     = 201 \<and>
   admin_count (users (snd (handleRequest 1 [] []
     (Register ''eve'' ''eve@x.org'' ''pw'' ''admin'') (initial 0)))) = 2"
  by code_simp

subsection \<open>The wallets\<close>

text \<open>
  Claim C8, as the code has it. The wallet of the first administrator is 0. A step of the
  server leaves the wallets of the users as they are (the users stay, or one with wallet 0
  is added, or one is removed), or it is the code after the \<open>await\<close> of a Complete-order
  or of a Resolve-dispute with \<open>releaseToSeller\<close> and adds the escrow of an order to the
  wallet of the first user with the order's \<open>sellerId\<close>. As long as every gig is created
  with a price that is not below 0, no wallet is below 0, and a release leaves no wallet
  lower than it was.
\<close>

theorem wallets_change_by_release_only:
  "map u_wallet (users (server (boot t0))) = [Num 0] \<and>
   (keeps_wallets (users (server c)) (users (server (istep c ev))) \<or>
    releases (server c) (server (istep c ev)) \<and>
    (\<exists>req. delivers c ev = Some req \<and> releases_escrow req)) \<and>
   (list_all ievent_price_ok es \<longrightarrow>
      wallets_nonneg (users (server (irun (boot t0) es))) \<and>
      (releases (server (irun (boot t0) es)) (server (istep (irun (boot t0) es) ev')) \<longrightarrow>
         wallets_grow (users (server (irun (boot t0) es)))
           (users (server (istep (irun (boot t0) es) ev')))))"
proof (intro conjI impI)
  show "map u_wallet (users (server (boot t0))) = [Num 0]"
    by (simp add: boot_def initial_def startup_def empty_store_def adminUser_def)
next
  show "keeps_wallets (users (server c)) (users (server (istep c ev))) \<or>
    releases (server c) (server (istep c ev)) \<and>
    (\<exists>req. delivers c ev = Some req \<and> releases_escrow req)"
    by (rule wallet_istep)
next
  assume "list_all ievent_price_ok es"
  with nonneg_boot have "nonneg_config (irun (boot t0) es)" by (rule nonneg_irun)
  then show "wallets_nonneg (users (server (irun (boot t0) es)))"
    by (simp add: nonneg_config_def nonneg_state_def)
next
  assume "list_all ievent_price_ok es"
    and r: "releases (server (irun (boot t0) es)) (server (istep (irun (boot t0) es) ev'))"
  with nonneg_boot have "nonneg_config (irun (boot t0) es)" by (intro nonneg_irun)
  then have "nonneg_state (server (irun (boot t0) es))" by (simp add: nonneg_config_def)
  from this r show "wallets_grow (users (server (irun (boot t0) es)))
           (users (server (istep (irun (boot t0) es) ev')))"
    by (rule release_grows)
qed

text \<open>
  Claim C8 as stated has every wallet non-negative and every change an increase. The
  creation of a gig accepts the price -5; the order on that gig holds the escrow -5, and
  completing it leaves the seller with the wallet -5.
\<close>

theorem negative_wallet_counterexample:
  "map u_wallet (users (run (initial 0) negative_price_events)) = [Num 0, Num (- 5), Num 0] \<and>
   \<not> wallets_nonneg (users (run (initial 0) negative_price_events))"
  by code_simp

text \<open>
  The sample session, whose only gig has the price 50, and the step in which the body of
  the buyer's Complete-order is read: it adds 50 to the wallet of the seller.
\<close>

theorem wallets_change_by_release_only_witness:
  "list_all ievent_price_ok demo_ievents \<and>
   releases (server (irun (boot 0) demo_ievents))
     (server (istep (irun (boot 0) demo_ievents) (Body 7 11 []))) \<and>
   map u_wallet (users (server (boot 0))) = [Num 0] \<and>
   (keeps_wallets (users (server (irun (boot 0) demo_ievents)))
      (users (server (istep (irun (boot 0) demo_ievents) (Body 7 11 [])))) \<or>
    releases (server (irun (boot 0) demo_ievents))
      (server (istep (irun (boot 0) demo_ievents) (Body 7 11 []))) \<and>
    (\<exists>req. delivers (irun (boot 0) demo_ievents) (Body 7 11 []) = Some req \<and>
       releases_escrow req)) \<and>
   wallets_nonneg (users (server (irun (boot 0) demo_ievents))) \<and>
   wallets_grow (users (server (irun (boot 0) demo_ievents)))
     (users (server (istep (irun (boot 0) demo_ievents) (Body 7 11 [])))) \<and>
   map u_wallet (users (server (istep (irun (boot 0) demo_ievents) (Body 7 11 []))))
     = [Num 0, Num 50, Num 0, Num 0]"
proof -
  note t = wallets_change_by_release_only
    [where ?t0.0 = 0 and c = "irun (boot 0) demo_ievents" and ev = "Body 7 11 []"
       and es = demo_ievents and ev' = "Body 7 11 []"]
  have h1: "list_all ievent_price_ok demo_ievents" by code_simp
  have f1: "find_order (orders (server (irun (boot 0) demo_ievents))) ''1'' = Some demo_order"
    by code_simp
  have f2: "find_order (orders (server (istep (irun (boot 0) demo_ievents) (Body 7 11 [])))) ''1''
      = Some (demo_order\<lparr>o_status := Completed, o_completedAt := Some 11, o_escrow := Num 0\<rparr>)"
    by code_simp
  have f3: "o_status (demo_order\<lparr>o_status := Completed, o_completedAt := Some 11,
      o_escrow := Num 0\<rparr>) = Completed"
    by simp
  have f4: "o_escrow (demo_order\<lparr>o_status := Completed, o_completedAt := Some 11,
      o_escrow := Num 0\<rparr>) = Num 0"
    by simp
  have f5: "users (server (istep (irun (boot 0) demo_ievents) (Body 7 11 [])))
      = credit (o_sellerId demo_order) (o_escrow demo_order)
          (users (server (irun (boot 0) demo_ievents)))"
    by code_simp
  have h2: "releases (server (irun (boot 0) demo_ievents))
     (server (istep (irun (boot 0) demo_ievents) (Body 7 11 [])))"
    unfolding releases_def using f1 f2 f3 f4 f5 by blast
  from t have c1: "map u_wallet (users (server (boot 0))) = [Num 0]" by blast
  from t have c2: "keeps_wallets (users (server (irun (boot 0) demo_ievents)))
      (users (server (istep (irun (boot 0) demo_ievents) (Body 7 11 [])))) \<or>
    releases (server (irun (boot 0) demo_ievents))
      (server (istep (irun (boot 0) demo_ievents) (Body 7 11 []))) \<and>
    (\<exists>req. delivers (irun (boot 0) demo_ievents) (Body 7 11 []) = Some req \<and>
       releases_escrow req)"
    by blast
  from t h1 have c3: "wallets_nonneg (users (server (irun (boot 0) demo_ievents)))" by blast
  from t h1 h2 have c4: "wallets_grow (users (server (irun (boot 0) demo_ievents)))
     (users (server (istep (irun (boot 0) demo_ievents) (Body 7 11 []))))"
    by blast
  have c5: "map u_wallet (users (server (istep (irun (boot 0) demo_ievents) (Body 7 11 []))))
     = [Num 0, Num 50, Num 0, Num 0]"
    by code_simp
  show ?thesis by (intro conjI h1 h2 c1 c2 c3 c4 c5)
qed

subsection \<open>Identifiers after a deletion\<close>

text \<open>
  Claim C9. A new identifier is the length of the collection plus one. Once a deletion has
  shortened the collection, the next creation repeats an identifier that is still in use:
  after two registrations, the deletion of user 2 and one more registration, two users
  carry the identifier 3.
\<close>

theorem identifier_reuse:
  "map u_id (users (run (initial 0) reused_id_events)) = [''1'', ''3'', ''3''] \<and>
   \<not> distinct (map u_id (users (run (initial 0) reused_id_events)))"
  by code_simp


end
